theory Spec2Isabelle
  imports Main
begin

section \<open>The task page of static/main.js\<close>

text \<open>
  The script \<^verbatim>\<open>static/main.js\<close> drives one browser page: it posts a task, opens an
  \<^verbatim>\<open>EventSource\<close> on \<^verbatim>\<open>/tasks/{id}/events\<close>, renders the pushed frames, polls
  \<^verbatim>\<open>/tasks/{id}\<close> and answers \<^verbatim>\<open>ask_human\<close> questions. The script is single threaded:
  every callback (listener, promise continuation, timer, click) runs to completion. The model
  is therefore a page state and one total function per callback; a network request in flight
  is a pending continuation that the environment completes later with a reply.
\<close>

subsection \<open>JavaScript values\<close>

text \<open>
  What \<^verbatim>\<open>JSON.parse\<close> and property access can produce. Numbers are the integer
  valued ones: the script only tests a number for truthiness and interpolates it.
\<close>

datatype jsval =
    Undefined
  | Null
  | JBool bool
  | JNum int
  | JStr string
  | JArr "jsval list"
  | JObj "(string \<times> jsval) list"

text \<open>\<^verbatim>\<open>v.k\<close>: a TypeError (\<open>None\<close>) on \<^verbatim>\<open>null\<close> and \<^verbatim>\<open>undefined\<close>, the own
  property of an object, and \<^verbatim>\<open>undefined\<close> otherwise (the script reads only the keys
  result, message, question, request_id, status, error, detail and task_id, none of which
  a primitive, an array or \<^verbatim>\<open>Object.prototype\<close> defines).\<close>

fun js_get :: "jsval \<Rightarrow> string \<Rightarrow> jsval option" where
  "js_get Undefined k = None"
| "js_get Null k = None"
| "js_get (JObj kvs) k = Some (case map_of kvs k of Some v \<Rightarrow> v | None \<Rightarrow> Undefined)"
| "js_get v k = Some Undefined"

fun truthy :: "jsval \<Rightarrow> bool" where
  "truthy Undefined = False"
| "truthy Null = False"
| "truthy (JBool b) = b"
| "truthy (JNum n) = (n \<noteq> 0)"
| "truthy (JStr s) = (s \<noteq> [])"
| "truthy (JArr xs) = True"
| "truthy (JObj kvs) = True"

text \<open>\<^verbatim>\<open>typeof v === 'object'\<close> holds of objects, arrays and \<^verbatim>\<open>null\<close>.\<close>

fun typeof_object :: "jsval \<Rightarrow> bool" where
  "typeof_object Null = True"
| "typeof_object (JArr xs) = True"
| "typeof_object (JObj kvs) = True"
| "typeof_object v = False"

fun digit_char :: "nat \<Rightarrow> char" where
  "digit_char n = char_of (48 + n)"

fun show_nat :: "nat \<Rightarrow> string" where
  "show_nat n = (if n < 10 then [digit_char n] else show_nat (n div 10) @ [digit_char (n mod 10)])"

declare show_nat.simps [simp del]

definition show_int :: "int \<Rightarrow> string" where
  "show_int i = (if i < 0 then CHR ''-'' # show_nat (nat (- i)) else show_nat (nat i))"

fun join_comma :: "string list \<Rightarrow> string" where
  "join_comma [] = []"
| "join_comma [s] = s"
| "join_comma (s # t # ss) = s @ '','' @ join_comma (t # ss)"

text \<open>String conversion, as a template literal \<^verbatim>\<open>${v}\<close> performs it.\<close>

fun js_to_string :: "jsval \<Rightarrow> string" where
  "js_to_string Undefined = ''undefined''"
| "js_to_string Null = ''null''"
| "js_to_string (JBool b) = (if b then ''true'' else ''false'')"
| "js_to_string (JNum n) = show_int n"
| "js_to_string (JStr s) = s"
| "js_to_string (JArr xs) =
     join_comma (map (\<lambda>x. if x = Null \<or> x = Undefined then [] else js_to_string x) xs)"
| "js_to_string (JObj kvs) = ''[object Object]''"

text \<open>\<^verbatim>\<open>a || b\<close>\<close>

definition js_or :: "jsval \<Rightarrow> jsval \<Rightarrow> jsval" where
  "js_or a b = (if truthy a then a else b)"

subsection \<open>Strings\<close>

text \<open>Strings are modelled as byte strings; white space is the ASCII white space that
  \<^verbatim>\<open>String.prototype.trim\<close> strips (tab, line feed, vertical tab, form feed, carriage
  return, space).\<close>

definition js_space :: "char \<Rightarrow> bool" where
  "js_space c = ((of_char c :: nat) \<in> {9, 10, 11, 12, 13, 32})"

definition trim :: "string \<Rightarrow> string" where
  "trim s = rev (dropWhile js_space (rev (dropWhile js_space s)))"

text \<open>\<^verbatim>\<open>hay.includes(needle)\<close>\<close>

definition starts_with :: "string \<Rightarrow> string \<Rightarrow> bool" where
  "starts_with p s = (take (length p) s = p)"

fun str_includes :: "string \<Rightarrow> string \<Rightarrow> bool" where
  "str_includes [] needle = (needle = [])"
| "str_includes (c # cs) needle = (starts_with needle (c # cs) \<or> str_includes cs needle)"

text \<open>\<^verbatim>\<open>s.split(sep).pop()\<close>: what follows the last separator.\<close>

definition after_last :: "char \<Rightarrow> string \<Rightarrow> string" where
  "after_last sep s = rev (takeWhile (\<lambda>c. c \<noteq> sep) (rev s))"

definition lower_char :: "char \<Rightarrow> char" where
  "lower_char c = (if (of_char c :: nat) \<in> {65..90} then char_of ((of_char c :: nat) + 32) else c)"

definition is_digit :: "char \<Rightarrow> bool" where
  "is_digit c = ((of_char c :: nat) \<in> {48..57})"

text \<open>\<^verbatim>\<open>parseInt\<close> of a string of decimal digits.\<close>

definition read_nat :: "string \<Rightarrow> nat" where
  "read_nat ds = foldl (\<lambda>n c. 10 * n + ((of_char c :: nat) - 48)) 0 ds"

text \<open>The regular expression \<^verbatim>\<open>/Executing step (\d+)\/(\d+)/\<close>: first at a fixed
  position, then at the leftmost position where it matches. The greedy \<^verbatim>\<open>\d+\<close> never
  needs to give a digit back, since a slash must follow it.\<close>

definition step_marker_at :: "string \<Rightarrow> (nat \<times> nat) option" where
  "step_marker_at s =
     (if starts_with ''Executing step '' s then
        (let r = drop (length ''Executing step '') s;
             a = takeWhile is_digit r
         in case dropWhile is_digit r of
              [] \<Rightarrow> None
            | c # r' \<Rightarrow>
                if a \<noteq> [] \<and> c = CHR ''/'' \<and> takeWhile is_digit r' \<noteq> []
                then Some (read_nat a, read_nat (takeWhile is_digit r'))
                else None)
      else None)"

fun stepRegex :: "string \<Rightarrow> (nat \<times> nat) option" where
  "stepRegex [] = None"
| "stepRegex (c # cs) =
     (case step_marker_at (c # cs) of Some m \<Rightarrow> Some m | None \<Rightarrow> stepRegex cs)"

text \<open>\<^verbatim>\<open>/Content successfully saved to (.+)/\<close>: the dot stops at a line terminator.\<close>

definition line_end :: "char \<Rightarrow> bool" where
  "line_end c = ((of_char c :: nat) \<in> {10, 13})"

definition saved_at :: "string \<Rightarrow> string option" where
  "saved_at s =
     (if starts_with ''Content successfully saved to '' s then
        (let cap = takeWhile (\<lambda>c. \<not> line_end c) (drop (length ''Content successfully saved to '') s)
         in if cap = [] then None else Some cap)
      else None)"

fun saveRegex :: "string \<Rightarrow> string option" where
  "saveRegex [] = None"
| "saveRegex (c # cs) =
     (case saved_at (c # cs) of Some m \<Rightarrow> Some m | None \<Rightarrow> saveRegex cs)"

subsection \<open>The rendered task container\<close>

text \<open>
  The elements the script writes, as data. Markup, time stamps and pictographs are left out:
  an icon is named by its code points. Interpolated text is taken as text (no markup inside
  a pushed string).
\<close>

definition getEventIcon :: "string \<Rightarrow> string" where
  "getEventIcon eventType =
     (case map_of
        [(''think'', ''U+1F914''), (''tool'', ''U+1F6E0 U+FE0F''), (''act'', ''U+1F680''),
         (''result'', ''U+1F3C1''), (''error'', ''U+274C''), (''complete'', ''U+2705''),
         (''log'', ''U+1F4DD''), (''run'', ''U+2699 U+FE0F''), (''ask_human'', ''U+1F4AC'')]
        eventType of
        Some icon \<Rightarrow> icon
      | None \<Rightarrow> ''U+2139 U+FE0F'')"

definition getEventLabel :: "string \<Rightarrow> string" where
  "getEventLabel eventType =
     (case map_of
        [(''think'', ''Thinking''), (''tool'', ''Using Tool''), (''act'', ''Action''),
         (''result'', ''Result''), (''error'', ''Error''), (''complete'', ''Complete''),
         (''log'', ''Log''), (''run'', ''Running''), (''ask_human'', ''Question for User'')]
        eventType of
        Some label \<Rightarrow> label
      | None \<Rightarrow> ''Info'')"

datatype file_kind = ImagePreview | AudioPlayer | CodeFile | DownloadLink

text \<open>An element of the step container: a progress divider, a \<^verbatim>\<open>step-item\<close> of some
  type with its icon, label, text and file block, or one of the two \<^verbatim>\<open>step-item ask_human\<close>
  elements of \<^verbatim>\<open>createHumanRequestElement\<close> (the question with its \<^verbatim>\<open>em\<close> line, or the
  error text).\<close>

datatype step =
    Divider nat nat
  | Item (item_type: string) (item_icon: string) (item_label: string) (item_text: string)
         (item_file: "(file_kind \<times> string) option")
  | HumanItem (human_pre: string) (human_em: string)
  | HumanError

datatype node =
    Loading
  | Ping
  | StepContainer "step list"
  | CompleteBox "string option"
  | ErrorBox string
  | CancelledBox
  | WarningBox nat
  | ConnectionLostBox

definition file_interaction :: "string \<Rightarrow> file_kind \<times> string" where
  "file_interaction captured =
     (let filePath = trim captured;
          fileName = after_last CHR ''/'' filePath;
          fileExtension = map lower_char (after_last CHR ''.'' fileName)
      in (if fileExtension \<in> set [''jpg'', ''jpeg'', ''png'', ''gif'', ''svg'', ''webp''] then ImagePreview
          else if fileExtension \<in> set [''mp3'', ''wav'', ''ogg''] then AudioPlayer
          else if fileExtension \<in> set [''html'', ''js'', ''py''] then CodeFile
          else DownloadLink,
          fileName))"

text \<open>\<^verbatim>\<open>createStepElement(type, content, timestamp)\<close>. \<open>None\<close> is the TypeError of
  \<^verbatim>\<open>content.match\<close> on a content that is not a string (\<^verbatim>\<open>stepRegex.test\<close> converts
  its argument, \<^verbatim>\<open>match\<close> is a method of strings only).\<close>

definition createStepElement :: "string \<Rightarrow> jsval \<Rightarrow> step option" where
  "createStepElement type content =
     (if type = ''log'' \<and> stepRegex (js_to_string content) \<noteq> None then
        (case content of
           JStr s \<Rightarrow> map_option (\<lambda>(currentStep, totalSteps). Divider currentStep totalSteps) (stepRegex s)
         | _ \<Rightarrow> None)
      else if type = ''act'' then
        (case content of
           JStr s \<Rightarrow> Some (Item type (getEventIcon type) (getEventLabel type) s
                            (map_option file_interaction (saveRegex s)))
         | _ \<Rightarrow> None)
      else Some (Item type (getEventIcon type) (getEventLabel type) (js_to_string content) None))"

fun is_step_container :: "node \<Rightarrow> bool" where
  "is_step_container (StepContainer ss) = True"
| "is_step_container n = False"

text \<open>\<^verbatim>\<open>ensureStepContainer\<close>: without a step container the whole container is replaced
  by an empty one.\<close>

definition ensureStepContainer :: "node list \<Rightarrow> node list" where
  "ensureStepContainer ns = (if list_ex is_step_container ns then ns else [StepContainer []])"

text \<open>\<^verbatim>\<open>stepContainer.appendChild(step)\<close> on the first step container.\<close>

fun appendStep :: "step \<Rightarrow> node list \<Rightarrow> node list" where
  "appendStep s [] = []"
| "appendStep s (StepContainer ss # ns) = StepContainer (ss @ [s]) # ns"
| "appendStep s (n # ns) = n # appendStep s ns"

text \<open>All steps in document order.\<close>

fun steps_of :: "node list \<Rightarrow> step list" where
  "steps_of [] = []"
| "steps_of (StepContainer ss # ns) = ss @ steps_of ns"
| "steps_of (n # ns) = steps_of ns"

text \<open>The \<^verbatim>\<open>textContent\<close> of an element matched by \<^verbatim>\<open>.step-item.ask_human\<close>; the parts
  are separated by the white space of the template.\<close>

fun is_ask_human_item :: "step \<Rightarrow> bool" where
  "is_ask_human_item (HumanItem q e) = True"
| "is_ask_human_item HumanError = True"
| "is_ask_human_item (Item t i l c f) = (t = ''ask_human'')"
| "is_ask_human_item (Divider a b) = False"

fun textContent :: "step \<Rightarrow> string" where
  "textContent (HumanItem q e) = ''Question for User: '' @ q @ '' '' @ e"
| "textContent HumanError = ''Question for User: Error: No request ID found''"
| "textContent (Item t i l c f) = l @ '': '' @ c"
| "textContent (Divider a b) = show_nat a @ '' '' @ show_nat a @ ''/'' @ show_nat b"

definition waiting_step :: "step \<Rightarrow> bool" where
  "waiting_step s = (is_ask_human_item s \<and> str_includes (textContent s) ''Waiting for user response'')"

text \<open>\<^verbatim>\<open>element.querySelector('em').textContent = ...\<close>. Only a question element has an
  \<^verbatim>\<open>em\<close>, and only a question element is ever found waiting: the error element does not
  contain the phrase, and \<^verbatim>\<open>createStepElement\<close> is called for the six step types only,
  so that no other element has the class \<^verbatim>\<open>ask_human\<close>.\<close>

fun set_em :: "string \<Rightarrow> step \<Rightarrow> step" where
  "set_em txt (HumanItem q e) = HumanItem q txt"
| "set_em txt s = s"

text \<open>The loop of \<^verbatim>\<open>updateLogElement\<close>: rewrite the first waiting element and stop.\<close>

fun update_first_waiting :: "string \<Rightarrow> step list \<Rightarrow> step list" where
  "update_first_waiting txt [] = []"
| "update_first_waiting txt (s # ss) =
     (if waiting_step s then set_em txt s # ss else s # update_first_waiting txt ss)"

fun update_nodes :: "string \<Rightarrow> node list \<Rightarrow> node list" where
  "update_nodes txt [] = []"
| "update_nodes txt (StepContainer ss # ns) =
     (if list_ex waiting_step ss then StepContainer (update_first_waiting txt ss) # ns
      else StepContainer ss # update_nodes txt ns)"
| "update_nodes txt (n # ns) = n # update_nodes txt ns"

subsection \<open>The page state\<close>

text \<open>
  \<^verbatim>\<open>EventSource.readyState\<close>. A source never leaves \<open>CLOSED\<close>, and the browser
  dispatches nothing on a closed source.
\<close>

datatype ready_state = CONNECTING | OPEN | CLOSED

datatype request =
    PostTask string
  | GetTaskList
  | GetTask string
  | PostRespond string string string

text \<open>The promise chain waiting for a request: which \<^verbatim>\<open>then\<close>/\<^verbatim>\<open>catch\<close> pair runs
  when the reply arrives.\<close>

datatype continuation =
    CreateTaskPost
  | HistoryList
  | InitialPoll
  | FramePoll
  | FinalPoll
  | ErrorPoll nat
  | RespondPost string string string

text \<open>A reply: the request failed, or a response with its \<^verbatim>\<open>ok\<close> flag and its body as
  \<^verbatim>\<open>response.json()\<close> reads it (\<open>None\<close>: the body is not JSON).\<close>

datatype reply = NetworkError | HttpReply bool "jsval option"

record modal =
  m_taskId :: string
  m_requestId :: string
  m_question :: string
  m_textarea :: string
  m_buttonsDisabled :: bool
  m_footer :: string

text \<open>
  The page: the two globals, the closure variables of the one running \<^verbatim>\<open>setupSSE\<close>
  (\<open>taskId\<close>, \<open>retryCount\<close>, \<open>lastResultContent\<close>), every \<^verbatim>\<open>EventSource\<close> created so far
  with its ready state and the heartbeat interval of its \<^verbatim>\<open>connect\<close> call (a handle is
  an index), and the parts of the document the script reads and writes. \<open>closeCalls\<close>,
  \<open>requests\<close>, \<open>alerts\<close> and \<open>console\<close> record what the script did, in order.
  \<open>statusBar\<close> and \<open>cancelBtn\<close> are \<open>None\<close> when the document has no such element.
\<close>

record page =
  promptInput :: string
  alerts :: "string list"
  console :: "string list"
  requests :: "request list"
  pending :: "continuation list"
  currentEventSource :: "nat option"
  currentTaskId :: "string option"
  taskId :: string
  retryCount :: nat
  lastResultContent :: string
  sources :: "ready_state list"
  heartbeats :: "bool list"
  closeCalls :: "nat list"
  reconnectTimers :: nat
  container :: "node list"
  containerActive :: bool
  statusBar :: "string option"
  cancelBtn :: "bool option"
  modal :: "modal option"
  modalCloseTimers :: nat

definition maxRetries :: nat where
  "maxRetries = 3"

definition logError :: "string \<Rightarrow> page \<Rightarrow> page" where
  "logError msg st = st\<lparr>console := console st @ [msg]\<rparr>"

definition clearHeartbeat :: "nat \<Rightarrow> page \<Rightarrow> page" where
  "clearHeartbeat h st = st\<lparr>heartbeats := (heartbeats st)[h := False]\<rparr>"

definition closeSource :: "nat \<Rightarrow> page \<Rightarrow> page" where
  "closeSource h st = st\<lparr>sources := (sources st)[h := CLOSED], closeCalls := closeCalls st @ [h]\<rparr>"

definition fetchTask :: "continuation \<Rightarrow> page \<Rightarrow> page" where
  "fetchTask k st = st\<lparr>requests := requests st @ [GetTask (taskId st)], pending := pending st @ [k]\<rparr>"

definition appendNode :: "node \<Rightarrow> page \<Rightarrow> page" where
  "appendNode n st = st\<lparr>container := container st @ [n]\<rparr>"

definition showCancelButton :: "page \<Rightarrow> page" where
  "showCancelButton st = st\<lparr>cancelBtn := map_option (\<lambda>_. True) (cancelBtn st)\<rparr>"

definition hideCancelButton :: "page \<Rightarrow> page" where
  "hideCancelButton st = st\<lparr>cancelBtn := map_option (\<lambda>_. False) (cancelBtn st)\<rparr>"

text \<open>\<^verbatim>\<open>if (currentEventSource) { currentEventSource.close(); currentEventSource = null; }\<close>\<close>

definition closeCurrent :: "page \<Rightarrow> page" where
  "closeCurrent st =
     (case currentEventSource st of
        None \<Rightarrow> st
      | Some h \<Rightarrow> (closeSource h st)\<lparr>currentEventSource := None\<rparr>)"

subsection \<open>createTask\<close>

definition createTask :: "page \<Rightarrow> page" where
  "createTask st =
     (let prompt = trim (promptInput st) in
      if prompt = [] then st\<lparr>alerts := alerts st @ [''Please enter a valid prompt'']\<rparr>
      else
        (let st1 = closeCurrent st;
             st2 = st1\<lparr>container := [Loading]\<rparr>;
             st3 = showCancelButton st2
         in st3\<lparr>requests := requests st3 @ [PostTask prompt],
                pending := pending st3 @ [CreateTaskPost]\<rparr>))"

subsection \<open>The status reconciler\<close>

text \<open>\<^verbatim>\<open>updateTaskStatus(task)\<close>; \<open>None\<close> is the TypeError of \<^verbatim>\<open>task.status\<close>.\<close>

definition updateTaskStatus :: "jsval \<Rightarrow> page \<Rightarrow> page option" where
  "updateTaskStatus task st =
     (case statusBar st of
        None \<Rightarrow> Some st
      | Some old \<Rightarrow>
          (case js_get task ''status'' of
             None \<Rightarrow> None
           | Some status \<Rightarrow>
               if status = JStr ''completed'' then
                 Some (closeCurrent (hideCancelButton (st\<lparr>statusBar := Some ''Task completed''\<rparr>)))
               else if status = JStr ''cancelled'' then
                 Some (closeCurrent (hideCancelButton (st\<lparr>statusBar := Some ''Task cancelled''\<rparr>)))
               else if status = JStr ''failed'' then
                 Some (closeCurrent (hideCancelButton (st\<lparr>statusBar := Some (''Task failed: '' @
                   js_to_string (js_or (case js_get task ''error'' of Some e \<Rightarrow> e | None \<Rightarrow> Undefined)
                                       (JStr ''Unknown error'')))\<rparr>)))
               else if status = JStr ''running'' then
                 Some (showCancelButton (st\<lparr>statusBar := Some (''Task running: '' @ js_to_string status)\<rparr>))
               else Some (st\<lparr>statusBar := Some (''Task running: '' @ js_to_string status)\<rparr>)))"

text \<open>The continuation of the three polls that only refresh the status: on a failed
  request, a body that is not JSON, or an exception, the error is logged.\<close>

definition poll_done :: "string \<Rightarrow> reply \<Rightarrow> page \<Rightarrow> page" where
  "poll_done msg r st =
     (case r of
        HttpReply ok (Some task) \<Rightarrow>
          (case updateTaskStatus task st of Some st' \<Rightarrow> st' | None \<Rightarrow> logError msg st)
      | _ \<Rightarrow> logError msg st)"

subsection \<open>setupSSE\<close>

text \<open>\<^verbatim>\<open>connect()\<close>: a new source, which becomes the current one, a heartbeat interval,
  and the initial poll.\<close>

definition connect :: "page \<Rightarrow> page" where
  "connect st =
     fetchTask InitialPoll
       (st\<lparr>sources := sources st @ [CONNECTING],
           heartbeats := heartbeats st @ [True],
           currentEventSource := Some (length (sources st))\<rparr>)"

definition setupSSE :: "string \<Rightarrow> page \<Rightarrow> page" where
  "setupSSE tid st = connect (st\<lparr>taskId := tid, retryCount := 0, lastResultContent := []\<rparr>)"

text \<open>\<^verbatim>\<open>handleEvent(event, type)\<close>, the listener of the six step types. \<open>data = None\<close>
  is a payload on which \<^verbatim>\<open>JSON.parse\<close> throws. An exception leaves the statements before
  it done and goes to the \<^verbatim>\<open>catch\<close>, which only logs.\<close>

definition handleEvent :: "nat \<Rightarrow> string \<Rightarrow> jsval option \<Rightarrow> page \<Rightarrow> page" where
  "handleEvent h type payload st0 =
     (let st = clearHeartbeat h st0;
          msg = ''Error handling '' @ type @ '' event:''
      in case payload of
           None \<Rightarrow> logError msg st
         | Some data \<Rightarrow>
             (let st1 = st\<lparr>container := ensureStepContainer (remove1 Loading (container st)),
                           containerActive := True\<rparr>
              in case js_get data ''result'' of
                   None \<Rightarrow> logError msg st1
                 | Some content \<Rightarrow>
                     (case createStepElement type content of
                        None \<Rightarrow> logError msg st1
                      | Some el \<Rightarrow>
                          fetchTask FramePoll (st1\<lparr>container := appendStep el (container st1)\<rparr>))))"

subsection \<open>The ask_human handshake\<close>

text \<open>\<^verbatim>\<open>showAskHumanModal\<close>: any earlier modal is removed, the new one starts with an empty
  text area and enabled buttons. (The Escape listener is not modelled.)\<close>

definition showAskHumanModal :: "string \<Rightarrow> string \<Rightarrow> string \<Rightarrow> page \<Rightarrow> page" where
  "showAskHumanModal question requestId tid st =
     st\<lparr>modal := Some \<lparr>m_taskId = tid, m_requestId = requestId, m_question = question,
                        m_textarea = [], m_buttonsDisabled = False,
                        m_footer = ''Agent is waiting for your response to continue''\<rparr>\<rparr>"

text \<open>\<^verbatim>\<open>createHumanRequestElement(data, taskId)\<close>: the element to append and the page after
  the call, or \<open>None\<close> for a TypeError (\<^verbatim>\<open>data\<close> or \<^verbatim>\<open>data.result\<close> is \<^verbatim>\<open>null\<close>).\<close>

definition createHumanRequestElement :: "jsval \<Rightarrow> page \<Rightarrow> (step \<times> page) option" where
  "createHumanRequestElement data st =
     (case js_get data ''result'' of
        None \<Rightarrow> None
      | Some result \<Rightarrow>
          (case (if typeof_object result then js_get result ''question'' else Some result) of
             None \<Rightarrow> None
           | Some question \<Rightarrow>
               (case (if typeof_object result then js_get result ''request_id'' else Some Null) of
                  None \<Rightarrow> None
                | Some requestId \<Rightarrow>
                    if \<not> truthy requestId then
                      Some (HumanError, logError ''No request_id found in ask_human data:'' st)
                    else
                      Some (HumanItem (js_to_string question) ''Waiting for user response...'',
                            showAskHumanModal (js_to_string question) (js_to_string requestId)
                              (taskId st) st))))"

definition onAskHuman :: "nat \<Rightarrow> jsval option \<Rightarrow> page \<Rightarrow> page" where
  "onAskHuman h payload st0 =
     (let st = clearHeartbeat h st0;
          msg = ''Error handling ask_human event:''
      in case payload of
           None \<Rightarrow> logError msg st
         | Some data \<Rightarrow>
             (let st1 = st\<lparr>container := ensureStepContainer (remove1 Loading (container st)),
                           containerActive := True\<rparr>
              in case createHumanRequestElement data st1 of
                   None \<Rightarrow> logError msg st1
                 | Some (el, st2) \<Rightarrow> st2\<lparr>container := appendStep el (container st2)\<rparr>))"

definition showModalError :: "string \<Rightarrow> page \<Rightarrow> page" where
  "showModalError message st =
     (case modal st of
        None \<Rightarrow> st
      | Some m \<Rightarrow> st\<lparr>modal := Some (m\<lparr>m_footer := message\<rparr>)\<rparr>)"

definition showModalLoading :: "page \<Rightarrow> page" where
  "showModalLoading st =
     (case modal st of
        None \<Rightarrow> st
      | Some m \<Rightarrow> st\<lparr>modal := Some (m\<lparr>m_buttonsDisabled := True, m_footer := ''Sending response...''\<rparr>)\<rparr>)"

definition showModalSuccess :: "string \<Rightarrow> page \<Rightarrow> page" where
  "showModalSuccess message st =
     (case modal st of
        None \<Rightarrow> st
      | Some m \<Rightarrow> st\<lparr>modal := Some (m\<lparr>m_footer := message\<rparr>)\<rparr>)"

definition updateLogElement :: "string \<Rightarrow> string \<Rightarrow> string \<Rightarrow> page \<Rightarrow> page" where
  "updateLogElement requestId response action st =
     (let responseText = (if action = ''skip'' then ''(skipped)'' else ''\"'' @ response @ ''\"'')
      in st\<lparr>container := update_nodes (''User response: '' @ responseText) (container st)\<rparr>)"

text \<open>\<^verbatim>\<open>respondToHumanModal\<close> up to its \<^verbatim>\<open>await fetch\<close>. The text area is the element
  with id \<^verbatim>\<open>response_{requestId}\<close>, which exists while the modal of that request is shown.\<close>

definition send_response :: "string \<Rightarrow> string \<Rightarrow> string \<Rightarrow> string \<Rightarrow> page \<Rightarrow> page" where
  "send_response tid requestId response action st =
     (let st1 = showModalLoading st
      in st1\<lparr>requests := requests st1 @ [PostRespond tid requestId response],
             pending := pending st1 @ [RespondPost requestId response action]\<rparr>)"

definition respondToHumanModal :: "string \<Rightarrow> string \<Rightarrow> string \<Rightarrow> page \<Rightarrow> page" where
  "respondToHumanModal tid requestId action st =
     (if action = ''skip'' then
        send_response tid requestId ''User chose to skip this question.'' action st
      else
        (let response = (case modal st of
                           Some m \<Rightarrow> if m_requestId m = requestId then trim (m_textarea m) else []
                         | None \<Rightarrow> [])
         in if response = [] then showModalError ''Please enter a response or click \"Skip\"'' st
            else send_response tid requestId response action st))"

text \<open>The rest of \<^verbatim>\<open>respondToHumanModal\<close>, once the POST has settled.\<close>

definition respond_failed :: "page \<Rightarrow> page" where
  "respond_failed st = showModalError ''Network error. Please try again.'' (logError ''Error sending response:'' st)"

definition respond_done :: "string \<Rightarrow> string \<Rightarrow> string \<Rightarrow> reply \<Rightarrow> page \<Rightarrow> page" where
  "respond_done requestId response action r st =
     (case r of
        NetworkError \<Rightarrow> respond_failed st
      | HttpReply ok body \<Rightarrow>
          if ok then
            (let st1 = showModalSuccess (if action = ''skip'' then ''Question skipped''
                                         else ''Response sent successfully'') st;
                 st2 = updateLogElement requestId response action st1
             in st2\<lparr>modalCloseTimers := modalCloseTimers st2 + 1\<rparr>)
          else
            (case body of
               None \<Rightarrow> respond_failed st
             | Some errorData \<Rightarrow>
                 (case js_get errorData ''detail'' of
                    None \<Rightarrow> respond_failed st
                  | Some detail \<Rightarrow>
                      showModalError (''Error: '' @ js_to_string (js_or detail (JStr ''Failed to send response''))) st)))"

text \<open>\<^verbatim>\<open>closeAskHumanModal\<close>, with its fade-out collapsed into the removal.\<close>

definition closeAskHumanModal :: "page \<Rightarrow> page" where
  "closeAskHumanModal st = st\<lparr>modal := None\<rparr>"

subsection \<open>Terminal frames\<close>

definition onComplete :: "nat \<Rightarrow> jsval option \<Rightarrow> page \<Rightarrow> page" where
  "onComplete h payload st0 =
     (let st = clearHeartbeat h st0;
          msg = ''Error handling complete event:''
      in case payload of
           None \<Rightarrow> logError msg st
         | Some data \<Rightarrow>
             (case js_get data ''result'' of
                None \<Rightarrow> logError msg st
              | Some result \<Rightarrow>
                  (let shown = js_to_string (js_or result (JStr []));
                       st1 = st\<lparr>lastResultContent := shown\<rparr>;
                       st2 = appendNode (CompleteBox (Some shown)) st1;
                       st3 = hideCancelButton st2;
                       st4 = fetchTask FinalPoll st3;
                       st5 = closeSource h st4
                   in st5\<lparr>currentEventSource := None, currentTaskId := None\<rparr>)))"

text \<open>The listener registered for \<^verbatim>\<open>error\<close>. It issues no request.\<close>

definition onErrorFrame :: "nat \<Rightarrow> jsval option \<Rightarrow> page \<Rightarrow> page" where
  "onErrorFrame h payload st0 =
     (let st = clearHeartbeat h st0;
          msg = ''Error handling failed:''
      in case payload of
           None \<Rightarrow> logError msg st
         | Some data \<Rightarrow>
             (case js_get data ''message'' of
                None \<Rightarrow> logError msg st
              | Some message \<Rightarrow>
                  (let st1 = appendNode (ErrorBox (js_to_string message)) st;
                       st2 = hideCancelButton st1;
                       st3 = closeSource h st2
                   in st3\<lparr>currentEventSource := None, currentTaskId := None\<rparr>)))"

definition onCancelled :: "nat \<Rightarrow> jsval option \<Rightarrow> page \<Rightarrow> page" where
  "onCancelled h payload st0 =
     (let st = clearHeartbeat h st0
      in case payload of
           None \<Rightarrow> logError ''Error handling cancelled event:'' st
         | Some data \<Rightarrow>
             (let st1 = appendNode CancelledBox st;
                  st2 = hideCancelButton st1;
                  st3 = fetchTask FinalPoll st2;
                  st4 = closeSource h st3
              in st4\<lparr>currentEventSource := None, currentTaskId := None\<rparr>))"

subsection \<open>Transport errors and the retry budget\<close>

text \<open>\<^verbatim>\<open>eventSource.onerror\<close>\<close>

definition onerror :: "nat \<Rightarrow> page \<Rightarrow> page" where
  "onerror h st =
     (if sources st ! h = CLOSED then st
      else fetchTask (ErrorPoll h)
             (closeSource h (clearHeartbeat h (logError ''SSE connection error:'' st))))"

text \<open>The \<^verbatim>\<open>catch\<close> of the poll made by \<^verbatim>\<open>onerror\<close>.\<close>

definition error_poll_catch :: "page \<Rightarrow> page" where
  "error_poll_catch st0 =
     (let st = logError ''Task status check failed:'' st0
      in if retryCount st < maxRetries then
           st\<lparr>retryCount := retryCount st + 1, reconnectTimers := reconnectTimers st + 1\<rparr>
         else st)"

text \<open>Its \<^verbatim>\<open>then\<close>; \<open>None\<close> is the TypeError of \<^verbatim>\<open>task.status\<close>, raised before anything
  is done. \<open>reconnectTimers\<close> counts the pending \<^verbatim>\<open>setTimeout(connect, retryDelay)\<close>.\<close>

definition error_poll_then :: "jsval \<Rightarrow> page \<Rightarrow> page option" where
  "error_poll_then task st =
     (case js_get task ''status'' of
        None \<Rightarrow> None
      | Some status \<Rightarrow>
          if status = JStr ''completed'' \<or> status = JStr ''failed'' then
            (case updateTaskStatus task st of
               None \<Rightarrow> None
             | Some st1 \<Rightarrow>
                 if status = JStr ''completed'' then Some (appendNode (CompleteBox None) st1)
                 else Some (appendNode
                   (ErrorBox (js_to_string
                      (js_or (case js_get task ''error'' of Some e \<Rightarrow> e | None \<Rightarrow> Undefined)
                             (JStr ''Task failed'')))) st1))
          else if retryCount st < maxRetries then
            (let st1 = st\<lparr>retryCount := retryCount st + 1\<rparr>;
                 st2 = appendNode (WarningBox (retryCount st1)) st1
             in Some (st2\<lparr>reconnectTimers := reconnectTimers st2 + 1\<rparr>))
          else Some (appendNode ConnectionLostBox st))"

definition error_poll_done :: "reply \<Rightarrow> page \<Rightarrow> page" where
  "error_poll_done r st =
     (case r of
        HttpReply ok (Some task) \<Rightarrow>
          (case error_poll_then task st of Some st' \<Rightarrow> st' | None \<Rightarrow> error_poll_catch st)
      | _ \<Rightarrow> error_poll_catch st)"

subsection \<open>The continuation of createTask\<close>

text \<open>The message of an exception raised by the engine is engine defined; it is shown as
  \<open>engine_message\<close>.\<close>

definition engine_message :: string where
  "engine_message = ''(engine error message)''"

definition createTask_catch :: "string \<Rightarrow> page \<Rightarrow> page" where
  "createTask_catch message st =
     logError ''Failed to create task:'' (hideCancelButton (st\<lparr>container := [ErrorBox message]\<rparr>))"

definition createTask_done :: "reply \<Rightarrow> page \<Rightarrow> page" where
  "createTask_done r st =
     (case r of
        NetworkError \<Rightarrow> createTask_catch engine_message st
      | HttpReply ok None \<Rightarrow> createTask_catch engine_message st
      | HttpReply ok (Some data) \<Rightarrow>
          if \<not> ok then
            (case js_get data ''detail'' of
               None \<Rightarrow> createTask_catch engine_message st
             | Some detail \<Rightarrow> createTask_catch (js_to_string (js_or detail (JStr ''Request failed''))) st)
          else
            (case js_get data ''task_id'' of
               None \<Rightarrow> createTask_catch engine_message st
             | Some task_id \<Rightarrow>
                 if \<not> truthy task_id then createTask_catch ''Invalid task ID'' st
                 else
                   (let st1 = st\<lparr>currentTaskId := Some (js_to_string task_id)\<rparr>;
                        st2 = setupSSE (js_to_string task_id) st1;
                        st3 = st2\<lparr>requests := requests st2 @ [GetTaskList],
                                  pending := pending st2 @ [HistoryList]\<rparr>
                    in st3\<lparr>promptInput := []\<rparr>)))"

subsection \<open>The events of one session\<close>

text \<open>
  What can happen to the page once \<^verbatim>\<open>setupSSE\<close> has run: the browser opens a source,
  pushes a frame (event name and payload) on it, or reports a transport error on it (fatal:
  the browser has given up and the source is already \<open>CLOSED\<close> when the handlers run;
  otherwise it is \<open>CONNECTING\<close> again); a heartbeat interval or a retry timer fires; the
  reply to the \<open>i\<close>-th request in flight arrives; the user types into the modal or clicks one
  of its two buttons; the timer that closes the modal fires.
\<close>

datatype event =
    SourceOpened nat
  | Frame nat string "jsval option"
  | TransportError nat bool
  | HeartbeatTick nat
  | ReconnectTimer
  | Reply nat reply
  | UserTypes string
  | ClickSend
  | ClickSkip
  | ModalCloseTimer

definition eventTypes :: "string list" where
  "eventTypes = [''think'', ''tool'', ''act'', ''log'', ''run'', ''message'']"

text \<open>The listeners registered by \<^verbatim>\<open>connect\<close>, by event name. A name without a listener
  reaches no code.\<close>

definition dispatch :: "nat \<Rightarrow> string \<Rightarrow> jsval option \<Rightarrow> page \<Rightarrow> page" where
  "dispatch h name payload st =
     (if name \<in> set eventTypes then handleEvent h name payload st
      else if name = ''ask_human'' then onAskHuman h payload st
      else if name = ''complete'' then onComplete h payload st
      else if name = ''error'' then onErrorFrame h payload st
      else if name = ''cancelled'' then onCancelled h payload st
      else st)"

fun resume :: "continuation \<Rightarrow> reply \<Rightarrow> page \<Rightarrow> page" where
  "resume CreateTaskPost r st = createTask_done r st"
| "resume HistoryList r st = st"
| "resume InitialPoll r st = poll_done ''Initial status fetch failed:'' r st"
| "resume FramePoll r st = poll_done ''Status update failed:'' r st"
| "resume FinalPoll r st = poll_done ''Final status update failed:'' r st"
| "resume (ErrorPoll h) r st = error_poll_done r st"
| "resume (RespondPost requestId response action) r st = respond_done requestId response action r st"

definition live :: "page \<Rightarrow> nat \<Rightarrow> bool" where
  "live st h = (h < length (sources st) \<and> sources st ! h \<noteq> CLOSED)"

text \<open>A transport error is an \<^verbatim>\<open>error\<close> event without data: the \<^verbatim>\<open>error\<close> listener,
  registered first, runs on it (and fails to parse), then \<^verbatim>\<open>onerror\<close>.\<close>

fun react :: "event \<Rightarrow> page \<Rightarrow> page" where
  "react (SourceOpened h) st =
     (if h < length (sources st) \<and> sources st ! h = CONNECTING
      then st\<lparr>sources := (sources st)[h := OPEN]\<rparr> else st)"
| "react (Frame h name payload) st = (if live st h then dispatch h name payload st else st)"
| "react (TransportError h fatal) st =
     (if live st h then
        onerror h (onErrorFrame h None
          (st\<lparr>sources := (sources st)[h := (if fatal then CLOSED else CONNECTING)]\<rparr>))
      else st)"
| "react (HeartbeatTick h) st =
     (if h < length (heartbeats st) \<and> heartbeats st ! h then appendNode Ping st else st)"
| "react ReconnectTimer st =
     (if reconnectTimers st = 0 then st
      else connect (st\<lparr>reconnectTimers := reconnectTimers st - 1\<rparr>))"
| "react (Reply i r) st =
     (if i < length (pending st)
      then resume (pending st ! i) r (st\<lparr>pending := take i (pending st) @ drop (Suc i) (pending st)\<rparr>)
      else st)"
| "react (UserTypes txt) st =
     (case modal st of None \<Rightarrow> st | Some m \<Rightarrow> st\<lparr>modal := Some (m\<lparr>m_textarea := txt\<rparr>)\<rparr>)"
| "react ClickSend st =
     (case modal st of
        None \<Rightarrow> st
      | Some m \<Rightarrow> if m_buttonsDisabled m then st
                  else respondToHumanModal (m_taskId m) (m_requestId m) ''respond'' st)"
| "react ClickSkip st =
     (case modal st of
        None \<Rightarrow> st
      | Some m \<Rightarrow> if m_buttonsDisabled m then st
                  else respondToHumanModal (m_taskId m) (m_requestId m) ''skip'' st)"
| "react ModalCloseTimer st =
     (if modalCloseTimers st = 0 then st
      else closeAskHumanModal (st\<lparr>modalCloseTimers := modalCloseTimers st - 1\<rparr>))"

fun run :: "event list \<Rightarrow> page \<Rightarrow> page" where
  "run [] st = st"
| "run (e # es) st = run es (react e st)"

text \<open>A freshly loaded page, given the document's status bar and cancel button.\<close>

definition loaded_page :: "string option \<Rightarrow> bool option \<Rightarrow> page" where
  "loaded_page bar btn =
     \<lparr>promptInput = [], alerts = [], console = [], requests = [], pending = [],
      currentEventSource = None, currentTaskId = None, taskId = [], retryCount = 0,
      lastResultContent = [], sources = [], heartbeats = [], closeCalls = [],
      reconnectTimers = 0, container = [], containerActive = False, statusBar = bar,
      cancelBtn = btn, modal = None, modalCloseTimers = 0\<rparr>"

subsection \<open>The session state the retry policy depends on\<close>

text \<open>
  The facts about channels and retries depend on six components of the page only: the retry
  count, the pending reconnect timers, the sources, the calls of \<^verbatim>\<open>close()\<close>, the requests
  in flight and the current source. \<open>core\<close> projects a page to them, and every callback acts
  on them as one of a few operations.
\<close>

type_synonym core = "nat \<times> nat \<times> ready_state list \<times> nat list \<times> continuation list \<times> nat option"

definition core :: "page \<Rightarrow> core" where
  "core st = (retryCount st, reconnectTimers st, sources st, closeCalls st, pending st, currentEventSource st)"

fun c_poll :: "continuation \<Rightarrow> core \<Rightarrow> core" where
  "c_poll k (rc, tm, src, cc, pd, ces) = (rc, tm, src, cc, pd @ [k], ces)"

fun c_close :: "nat \<Rightarrow> core \<Rightarrow> core" where
  "c_close h (rc, tm, src, cc, pd, ces) = (rc, tm, src[h := CLOSED], cc @ [h], pd, ces)"

fun c_forget :: "core \<Rightarrow> core" where
  "c_forget (rc, tm, src, cc, pd, ces) = (rc, tm, src, cc, pd, None)"

fun c_closeCurrent :: "core \<Rightarrow> core" where
  "c_closeCurrent (rc, tm, src, cc, pd, ces) =
     (case ces of None \<Rightarrow> (rc, tm, src, cc, pd, ces) | Some h \<Rightarrow> (rc, tm, src[h := CLOSED], cc @ [h], pd, None))"

fun c_retry :: "core \<Rightarrow> core" where
  "c_retry (rc, tm, src, cc, pd, ces) = (Suc rc, Suc tm, src, cc, pd, ces)"

fun c_connect :: "core \<Rightarrow> core" where
  "c_connect (rc, tm, src, cc, pd, ces) = (rc, tm, src @ [CONNECTING], cc, pd @ [InitialPoll], Some (length src))"

text \<open>The number of sources that are not closed, and of polls made by \<^verbatim>\<open>onerror\<close> whose
  reply is still awaited.\<close>

definition live_count :: "ready_state list \<Rightarrow> nat" where
  "live_count src = length (filter (\<lambda>r. r \<noteq> CLOSED) src)"

fun is_error_poll :: "continuation \<Rightarrow> bool" where
  "is_error_poll (ErrorPoll h) = True"
| "is_error_poll k = False"

definition error_polls :: "continuation list \<Rightarrow> nat" where
  "error_polls pd = length (filter is_error_poll pd)"

text \<open>
  The invariant of a session. At any moment at most one of the following exists: a source
  that is not closed, a pending reconnect timer, an awaited \<^verbatim>\<open>onerror\<close> poll. Every
  channel opened after the first was paid for by one retry. A source on which \<^verbatim>\<open>close()\<close>
  was called is closed. No \<^verbatim>\<open>createTask\<close> is in flight (its continuation would start
  another \<^verbatim>\<open>setupSSE\<close>).
\<close>

fun inv_core :: "core \<Rightarrow> bool" where
  "inv_core (rc, tm, src, cc, pd, ces) =
     (rc \<le> maxRetries \<and> length src + tm = Suc rc
      \<and> live_count src + tm + error_polls pd \<le> 1
      \<and> list_all (\<lambda>h. h < length src \<and> src ! h = CLOSED) cc
      \<and> (case ces of None \<Rightarrow> True | Some h \<Rightarrow> h < length src)
      \<and> CreateTaskPost \<notin> set pd)"

definition session_inv :: "page \<Rightarrow> bool" where
  "session_inv st =
     (retryCount st \<le> maxRetries \<and> length (sources st) + reconnectTimers st = Suc (retryCount st)
      \<and> live_count (sources st) + reconnectTimers st + error_polls (pending st) \<le> 1
      \<and> list_all (\<lambda>h. h < length (sources st) \<and> sources st ! h = CLOSED) (closeCalls st)
      \<and> (case currentEventSource st of None \<Rightarrow> True | Some h \<Rightarrow> h < length (sources st))
      \<and> CreateTaskPost \<notin> set (pending st))"

text \<open>A page on which no session has run yet: \<^verbatim>\<open>setupSSE\<close> may be called on it.\<close>

definition no_session :: "page \<Rightarrow> bool" where
  "no_session p =
     (sources p = [] \<and> closeCalls p = [] \<and> reconnectTimers p = 0
      \<and> list_all (\<lambda>k. \<not> is_error_poll k \<and> k \<noteq> CreateTaskPost) (pending p))"



text \<open>What one event may do to the counters: leave the retry count alone and schedule
  nothing, or consume one retry that was left and schedule one reconnect. Sources are never
  forgotten.\<close>

fun core_step_ok :: "core \<Rightarrow> core \<Rightarrow> bool" where
  "core_step_ok (rc, tm, src, cc, pd, ces) (rc', tm', src', cc', pd', ces') =
     (((rc' = rc \<and> tm' \<le> tm) \<or> (rc < maxRetries \<and> rc' = Suc rc \<and> tm' = Suc tm))
      \<and> length src \<le> length src')"

text \<open>An \<^verbatim>\<open>ask_human\<close> payload that carries no usable request id: its \<^verbatim>\<open>result\<close> is not an
  object with a truthy \<^verbatim>\<open>request_id\<close>.\<close>

definition lacks_request_id :: "jsval \<Rightarrow> bool" where
  "lacks_request_id data =
     (case js_get data ''result'' of
        None \<Rightarrow> True
      | Some result \<Rightarrow>
          \<not> (typeof_object result
             \<and> (case js_get result ''request_id'' of Some r \<Rightarrow> truthy r | None \<Rightarrow> False)))"

text \<open>The page used in the examples: task \<^verbatim>\<open>t1\<close> has just been set up on a freshly loaded
  page that has a status bar and a hidden cancel button.\<close>

abbreviation demo :: page where
  "demo \<equiv> setupSSE ''t1'' (loaded_page (Some []) (Some False))"

section \<open>Properties\<close>

subsection \<open>Callbacks as operations on the session core\<close>

lemma core_untouched [simp]:
  "core (promptInput_update f0 st) = core st"
  "core (alerts_update f1 st) = core st"
  "core (console_update f2 st) = core st"
  "core (requests_update f3 st) = core st"
  "core (currentTaskId_update f4 st) = core st"
  "core (taskId_update f5 st) = core st"
  "core (lastResultContent_update f6 st) = core st"
  "core (heartbeats_update f7 st) = core st"
  "core (container_update f8 st) = core st"
  "core (containerActive_update f9 st) = core st"
  "core (statusBar_update g0 st) = core st"
  "core (cancelBtn_update g1 st) = core st"
  "core (modal_update g2 st) = core st"
  "core (modalCloseTimers_update g3 st) = core st"
  by (simp_all add: core_def)

lemma core_prims [simp]:
  "core (logError msg st) = core st"
  "core (clearHeartbeat h st) = core st"
  "core (appendNode n st) = core st"
  "core (showCancelButton st) = core st"
  "core (hideCancelButton st) = core st"
  "core (fetchTask k st) = c_poll k (core st)"
  "core (closeSource h st) = c_close h (core st)"
  "core (st\<lparr>currentEventSource := None\<rparr>) = c_forget (core st)"
  "core (showModalError m st) = core st"
  "core (showModalLoading st) = core st"
  "core (showModalSuccess m st) = core st"
  "core (updateLogElement a b c st) = core st"
  "core (closeAskHumanModal st) = core st"
  by (simp_all add: core_def logError_def clearHeartbeat_def appendNode_def showCancelButton_def
      hideCancelButton_def fetchTask_def closeSource_def showModalError_def showModalLoading_def
      showModalSuccess_def updateLogElement_def closeAskHumanModal_def split: option.split)

lemma core_closeCurrent [simp]: "core (closeCurrent st) = c_closeCurrent (core st)"
  by (simp add: closeCurrent_def split: option.split) (simp add: core_def closeSource_def)

lemma core_connect [simp]: "core (connect st) = c_connect (core st)"
  by (simp add: connect_def) (simp add: core_def)

lemma core_updateTaskStatus:
  "case updateTaskStatus task st of None \<Rightarrow> True
   | Some st' \<Rightarrow> core st' = core st \<or> core st' = c_closeCurrent (core st)"
  by (simp add: updateTaskStatus_def split: option.split)

lemma core_poll_done:
  "core (poll_done msg r st) = core st \<or> core (poll_done msg r st) = c_closeCurrent (core st)"
proof (cases r)
  case NetworkError
  then show ?thesis by (simp add: poll_done_def)
next
  case (HttpReply ok body)
  show ?thesis
  proof (cases body)
    case None
    with HttpReply show ?thesis by (simp add: poll_done_def)
  next
    case (Some task)
    with HttpReply core_updateTaskStatus [where task=task and st=st] show ?thesis
      by (cases "updateTaskStatus task st") (simp_all add: poll_done_def)
  qed
qed

lemma core_handleEvent:
  "core (handleEvent h t p st) = core st \<or> core (handleEvent h t p st) = c_poll FramePoll (core st)"
  by (simp add: handleEvent_def Let_def split: option.split)

lemma core_createHumanRequestElement:
  "case createHumanRequestElement d st of None \<Rightarrow> True | Some (el, st') \<Rightarrow> core st' = core st"
  by (simp add: createHumanRequestElement_def showAskHumanModal_def split: option.split)

lemma core_onAskHuman: "core (onAskHuman h p st) = core st"
proof (cases p)
  case None
  then show ?thesis by (simp add: onAskHuman_def)
next
  case (Some d)
  let ?st1 = "(clearHeartbeat h st)\<lparr>container := ensureStepContainer (remove1 Loading (container (clearHeartbeat h st))), containerActive := True\<rparr>"
  have c1: "core ?st1 = core st" by simp
  show ?thesis
  proof (cases "createHumanRequestElement d ?st1")
    case None
    with Some c1 show ?thesis by (simp add: onAskHuman_def Let_def)
  next
    case (Some r)
    obtain el st2 where r: "r = (el, st2)" by (cases r)
    from core_createHumanRequestElement [where d=d and st="?st1"] Some r have "core st2 = core ?st1" by simp
    with \<open>p = Some d\<close> Some r c1 show ?thesis by (simp add: onAskHuman_def Let_def)
  qed
qed

lemma core_onComplete:
  "core (onComplete h p st) = core st \<or> core (onComplete h p st) = c_forget (c_close h (c_poll FinalPoll (core st)))"
  by (simp add: onComplete_def Let_def split: option.split)

lemma core_onErrorFrame:
  "core (onErrorFrame h p st) = core st \<or> core (onErrorFrame h p st) = c_forget (c_close h (core st))"
  by (simp add: onErrorFrame_def Let_def split: option.split)

lemma core_onCancelled:
  "core (onCancelled h p st) = core st \<or> core (onCancelled h p st) = c_forget (c_close h (c_poll FinalPoll (core st)))"
  by (simp add: onCancelled_def Let_def split: option.split)

lemma core_onerror:
  "core (onerror h st) = (if sources st ! h = CLOSED then core st else c_poll (ErrorPoll h) (c_close h (core st)))"
  by (simp add: onerror_def)

lemma core_retry [simp]:
  "core (st\<lparr>retryCount := Suc (retryCount st), reconnectTimers := Suc (reconnectTimers st)\<rparr>) = c_retry (core st)"
  "core ((st\<lparr>retryCount := Suc (retryCount st)\<rparr>)\<lparr>reconnectTimers := Suc (reconnectTimers st)\<rparr>) = c_retry (core st)"
  by (simp_all add: core_def)

lemma core_error_poll_catch:
  "core (error_poll_catch st) = (if retryCount st < maxRetries then c_retry (core st) else core st)"
  by (simp add: error_poll_catch_def Let_def logError_def core_def)

lemma core_error_poll_then:
  "case error_poll_then task st of None \<Rightarrow> True
   | Some st' \<Rightarrow> core st' = core st \<or> core st' = c_closeCurrent (core st)
        \<or> (retryCount st < maxRetries \<and> core st' = c_retry (core st))"
proof (cases "js_get task ''status''")
  case None
  then show ?thesis by (simp add: error_poll_then_def)
next
  case (Some status)
  show ?thesis
  proof (cases "status = JStr ''completed'' \<or> status = JStr ''failed''")
    case True
    with Some core_updateTaskStatus [where task=task and st=st] show ?thesis
      by (cases "updateTaskStatus task st") (auto simp add: error_poll_then_def)
  next
    case False
    with Some show ?thesis
      by (simp add: error_poll_then_def Let_def appendNode_def core_def)
  qed
qed

lemma core_error_poll_done:
  "core (error_poll_done r st) = core st \<or> core (error_poll_done r st) = c_closeCurrent (core st)
     \<or> (retryCount st < maxRetries \<and> core (error_poll_done r st) = c_retry (core st))"
proof (cases r)
  case NetworkError
  then show ?thesis by (simp add: error_poll_done_def core_error_poll_catch)
next
  case (HttpReply ok body)
  show ?thesis
  proof (cases body)
    case None
    with HttpReply show ?thesis by (simp add: error_poll_done_def core_error_poll_catch)
  next
    case (Some task)
    with HttpReply core_error_poll_then [where task=task and st=st] show ?thesis
      by (cases "error_poll_then task st") (simp_all add: error_poll_done_def core_error_poll_catch)
  qed
qed

lemma core_respond_done: "core (respond_done a b c r st) = core st"
  by (simp add: respond_done_def respond_failed_def Let_def split: reply.split option.split)

lemma core_send_response:
  "core (send_response tid rid resp act st) = c_poll (RespondPost rid resp act) (core st)"
  by (simp add: send_response_def Let_def) (simp add: core_def showModalLoading_def split: option.split)

lemma core_respondToHumanModal:
  "core (respondToHumanModal tid rid act st) = core st \<or> (\<exists>resp. core (respondToHumanModal tid rid act st) = c_poll (RespondPost rid resp act) (core st))"
  by (auto simp add: respondToHumanModal_def core_send_response Let_def)

subsection \<open>Live sources and awaited polls\<close>

lemma session_inv_core: "session_inv st = inv_core (core st)"
  by (simp add: session_inv_def core_def)

lemma live_count_Cons [simp]:
  "live_count (r # src) = (if r = CLOSED then live_count src else Suc (live_count src))"
  by (simp add: live_count_def)

lemma live_count_Nil [simp]: "live_count [] = 0"
  by (simp add: live_count_def)

lemma live_count_append [simp]: "live_count (xs @ ys) = live_count xs + live_count ys"
  by (simp add: live_count_def)

lemma live_count_close_le: "live_count (src[h := CLOSED]) \<le> live_count src"
proof (induction src arbitrary: h)
  case Nil
  then show ?case by simp
next
  case (Cons r src)
  show ?case
  proof (cases h)
    case 0
    then show ?thesis by simp
  next
    case (Suc k)
    with Cons [of k] show ?thesis by simp
  qed
qed

lemma live_count_close_live:
  "h < length src \<Longrightarrow> src ! h \<noteq> CLOSED \<Longrightarrow> Suc (live_count (src[h := CLOSED])) = live_count src"
proof (induction src arbitrary: h)
  case Nil
  then show ?case by simp
next
  case (Cons r src)
  show ?case
  proof (cases h)
    case 0
    with Cons.prems show ?thesis by simp
  next
    case (Suc k)
    with Cons.prems Cons.IH [of k] show ?thesis by simp
  qed
qed

lemma live_count_update_live:
  "h < length src \<Longrightarrow> src ! h \<noteq> CLOSED \<Longrightarrow> r \<noteq> CLOSED \<Longrightarrow> live_count (src[h := r]) = live_count src"
proof (induction src arbitrary: h)
  case Nil
  then show ?case by simp
next
  case (Cons a src)
  show ?case
  proof (cases h)
    case 0
    with Cons.prems show ?thesis by simp
  next
    case (Suc k)
    with Cons.prems Cons.IH [of k] show ?thesis by simp
  qed
qed


lemma error_polls_append [simp]: "error_polls (xs @ ys) = error_polls xs + error_polls ys"
  by (simp add: error_polls_def)

lemma error_polls_Nil [simp]: "error_polls [] = 0"
  by (simp add: error_polls_def)

lemma error_polls_Cons [simp]:
  "error_polls (k # ks) = (if is_error_poll k then 1 else 0) + error_polls ks"
  by (simp add: error_polls_def)

lemma error_polls_remove:
  "i < length pd \<Longrightarrow>
     error_polls (take i pd @ drop (Suc i) pd) + (if is_error_poll (pd ! i) then 1 else 0) = error_polls pd"
proof -
  assume "i < length pd"
  then have "pd = take i pd @ [pd ! i] @ drop (Suc i) pd"
    by (simp add: id_take_nth_drop)
  then have "error_polls pd = error_polls (take i pd @ [pd ! i] @ drop (Suc i) pd)"
    by simp
  then show ?thesis by simp
qed

lemma closed_calls_update:
  "list_all (\<lambda>k. k < length src \<and> src ! k = CLOSED) cc \<Longrightarrow>
     list_all (\<lambda>k. k < length (src[h := CLOSED]) \<and> src[h := CLOSED] ! k = CLOSED) cc"
proof (cases "h < length src")
  case True
  assume "list_all (\<lambda>k. k < length src \<and> src ! k = CLOSED) cc"
  with True show ?thesis by (induction cc) (auto simp: nth_list_update)
next
  case False
  assume "list_all (\<lambda>k. k < length src \<and> src ! k = CLOSED) cc"
  with False show ?thesis by (simp add: list_update_beyond not_less)
qed

subsection \<open>The invariant is kept by every event\<close>

text \<open>Each operation on the core keeps the invariant; each event is one of them.\<close>

lemma inv_c_forget: "inv_core c \<Longrightarrow> inv_core (c_forget c)"
  by (cases c) simp

lemma inv_c_close:
  assumes "inv_core c" and "h < length (fst (snd (snd c)))"
  shows "inv_core (c_close h c)"
proof -
  obtain rc tm src cc pd ces where c: "c = (rc, tm, src, cc, pd, ces)" by (cases c)
  from assms c have "live_count (src[h := CLOSED]) + tm + error_polls pd \<le> 1"
    using live_count_close_le [of src h] by simp
  moreover from assms c have "list_all (\<lambda>k. k < length (src[h := CLOSED]) \<and> src[h := CLOSED] ! k = CLOSED) (cc @ [h])"
    using closed_calls_update [of src cc h] by simp
  ultimately show ?thesis using assms c by (simp split: option.splits)
qed

lemma inv_c_closeCurrent: "inv_core c \<Longrightarrow> inv_core (c_closeCurrent c)"
proof -
  assume i: "inv_core c"
  obtain rc tm src cc pd ces where c: "c = (rc, tm, src, cc, pd, ces)" by (cases c)
  show ?thesis
  proof (cases ces)
    case None
    with i c show ?thesis by simp
  next
    case (Some h)
    with i c have "h < length (fst (snd (snd c)))" by simp
    from inv_c_forget [OF inv_c_close [OF i this]] c Some show ?thesis by simp
  qed
qed

lemma core_cases:
  obtains rc tm src cc pd ces where "core st = (rc, tm, src, cc, pd, ces)"
    and "retryCount st = rc" and "reconnectTimers st = tm" and "sources st = src"
    and "closeCalls st = cc" and "pending st = pd" and "currentEventSource st = ces"
  by (simp add: core_def)

lemma closed_calls_keep:
  "list_all (\<lambda>k. k < length src \<and> src ! k = CLOSED) cc \<Longrightarrow> src ! h \<noteq> CLOSED \<Longrightarrow>
     list_all (\<lambda>k. k < length (src[h := r]) \<and> src[h := r] ! k = CLOSED) cc"
proof -
  assume l: "src ! h \<noteq> CLOSED"
  have keep: "\<And>k. src ! k = CLOSED \<Longrightarrow> src[h := r] ! k = CLOSED"
  proof -
    fix k assume "src ! k = CLOSED"
    with l have "h \<noteq> k" by auto
    then show "src[h := r] ! k = CLOSED" using \<open>src ! k = CLOSED\<close> by simp
  qed
  assume "list_all (\<lambda>k. k < length src \<and> src ! k = CLOSED) cc"
  then show ?thesis by (induction cc) (simp_all add: keep)
qed

lemma closed_calls_append:
  "list_all (\<lambda>k. k < length src \<and> src ! k = CLOSED) cc \<Longrightarrow>
     list_all (\<lambda>k. k < length (src @ [r]) \<and> (src @ [r]) ! k = CLOSED) cc"
  by (induction cc) (auto simp: nth_append)

lemma inv_close:
  assumes "inv_core (rc, tm, src, cc, pd, ces)" and "h < length src"
  shows "inv_core (rc, tm, src[h := CLOSED], cc @ [h], pd, ces)"
proof -
  have "live_count (src[h := CLOSED]) + tm + error_polls pd \<le> 1"
    using assms live_count_close_le [of src h] by simp
  moreover have "list_all (\<lambda>k. k < length (src[h := CLOSED]) \<and> src[h := CLOSED] ! k = CLOSED) (cc @ [h])"
    using assms closed_calls_update [of src cc h] by simp
  ultimately show ?thesis using assms by (simp split: option.splits)
qed

lemma inv_remove:
  assumes "inv_core (rc, tm, src, cc, pd, ces)" and "i < length pd"
  shows "inv_core (rc, tm, src, cc, take i pd @ drop (Suc i) pd, ces)"
proof -
  have "error_polls (take i pd @ drop (Suc i) pd) \<le> error_polls pd"
    using error_polls_remove [OF assms(2)] by (simp split: if_splits)
  moreover have "CreateTaskPost \<notin> set (take i pd @ drop (Suc i) pd)"
    using assms(1) by (auto dest: in_set_takeD in_set_dropD)
  ultimately show ?thesis using assms(1) by simp
qed

lemma inv_retry:
  assumes "inv_core (rc, tm, src, cc, pd, ces)" and "i < length pd" and "is_error_poll (pd ! i)"
    and "rc < maxRetries"
  shows "inv_core (Suc rc, Suc tm, src, cc, take i pd @ drop (Suc i) pd, ces)"
proof -
  have "Suc (error_polls (take i pd @ drop (Suc i) pd)) = error_polls pd"
    using error_polls_remove [OF assms(2)] assms(3) by simp
  moreover have "CreateTaskPost \<notin> set (take i pd @ drop (Suc i) pd)"
    using assms(1) by (auto dest: in_set_takeD in_set_dropD)
  ultimately show ?thesis using assms(1,4) by simp
qed

lemma core_dispatch:
  "core (dispatch h n p st) = core st \<or> core (dispatch h n p st) = c_poll FramePoll (core st)
   \<or> core (dispatch h n p st) = c_forget (c_close h (c_poll FinalPoll (core st)))
   \<or> core (dispatch h n p st) = c_forget (c_close h (core st))"
  using core_handleEvent [of h n p st] core_onAskHuman [of h p st] core_onComplete [of h p st]
    core_onErrorFrame [of h p st] core_onCancelled [of h p st]
  by (simp add: dispatch_def) blast

lemma inv_Frame: "session_inv st \<Longrightarrow> session_inv (react (Frame h n p) st)"
proof (cases "live st h")
  case False
  assume "session_inv st"
  with False show ?thesis by simp
next
  case True
  assume i: "session_inv st"
  obtain rc tm src cc pd ces where c: "core st = (rc, tm, src, cc, pd, ces)" and s: "sources st = src"
    by (rule core_cases)
  from True s have h: "h < length src" by (simp add: live_def)
  from i c have ic: "inv_core (rc, tm, src, cc, pd, ces)" by (simp add: session_inv_core)
  have a: "inv_core (c_poll FramePoll (core st))" using ic c by simp
  have "inv_core (rc, tm, src, cc, pd @ [FinalPoll], ces)" using ic by simp
  from inv_close [OF this h] have b: "inv_core (c_forget (c_close h (c_poll FinalPoll (core st))))"
    using c by simp
  from inv_close [OF ic h] have d: "inv_core (c_forget (c_close h (core st)))"
    using c by simp
  from core_dispatch [of h n p st] ic c a b d have "inv_core (core (dispatch h n p st))"
    by auto
  with True show ?thesis by (simp add: session_inv_core)
qed

lemma core_onErrorFrame_None [simp]: "core (onErrorFrame h None st) = core st"
  by (simp add: onErrorFrame_def)

lemma inv_TransportError: "session_inv st \<Longrightarrow> session_inv (react (TransportError h fatal) st)"
proof (cases "live st h")
  case False
  assume "session_inv st"
  with False show ?thesis by simp
next
  case True
  assume i: "session_inv st"
  obtain rc tm src cc pd ces where c: "core st = (rc, tm, src, cc, pd, ces)" and s: "sources st = src"
    by (rule core_cases)
  from True s have h: "h < length src" and l: "src ! h \<noteq> CLOSED" by (simp_all add: live_def)
  from i c have ic: "inv_core (rc, tm, src, cc, pd, ces)" by (simp add: session_inv_core)
  let ?r = "if fatal then CLOSED else CONNECTING"
  let ?st1 = "onErrorFrame h None (st\<lparr>sources := (sources st)[h := ?r]\<rparr>)"
  have "core ?st1 = core (st\<lparr>sources := (sources st)[h := ?r]\<rparr>)" by simp
  also have "\<dots> = (rc, tm, src[h := ?r], cc, pd, ces)" using c by (simp add: core_def)
  finally have c1: "core ?st1 = (rc, tm, src[h := ?r], cc, pd, ces)" .
  then have s1: "sources ?st1 = src[h := ?r]" by (simp add: core_def)
  show ?thesis
  proof (cases fatal)
    case True
    have "live_count (src[h := CLOSED]) + tm + error_polls pd \<le> 1"
      using ic live_count_close_le [of src h] by simp
    moreover have "list_all (\<lambda>k. k < length (src[h := CLOSED]) \<and> src[h := CLOSED] ! k = CLOSED) cc"
      using ic closed_calls_update [of src cc h] by simp
    ultimately have "inv_core (rc, tm, src[h := CLOSED], cc, pd, ces)"
      using ic by (simp split: option.splits)
    moreover from True s1 h have "onerror h ?st1 = ?st1" by (simp add: onerror_def)
    ultimately show ?thesis using \<open>live st h\<close> True c1 by (simp add: session_inv_core)
  next
    case False
    with s1 h have "sources ?st1 ! h \<noteq> CLOSED" by simp
    then have c2: "core (onerror h ?st1) = (rc, tm, src[h := CLOSED], cc @ [h], pd @ [ErrorPoll h], ces)"
      using c1 False by (simp add: core_onerror)
    have "Suc (live_count (src[h := CLOSED])) = live_count src"
      using live_count_close_live [OF h l] .
    moreover have "list_all (\<lambda>k. k < length (src[h := CLOSED]) \<and> src[h := CLOSED] ! k = CLOSED) (cc @ [h])"
      using ic h closed_calls_update [of src cc h] by simp
    ultimately have "inv_core (rc, tm, src[h := CLOSED], cc @ [h], pd @ [ErrorPoll h], ces)"
      using ic by (simp split: option.splits)
    with c2 \<open>live st h\<close> False show ?thesis by (simp add: session_inv_core)
  qed
qed

lemma inv_SourceOpened: "session_inv st \<Longrightarrow> session_inv (react (SourceOpened h) st)"
proof (cases "h < length (sources st) \<and> sources st ! h = CONNECTING")
  case False
  assume "session_inv st"
  with False show ?thesis by auto
next
  case True
  assume i: "session_inv st"
  from True have "live_count ((sources st)[h := OPEN]) = live_count (sources st)"
    by (simp add: live_count_update_live)
  moreover from i True
  have "list_all (\<lambda>k. k < length ((sources st)[h := OPEN]) \<and> (sources st)[h := OPEN] ! k = CLOSED) (closeCalls st)"
    using closed_calls_keep [of "sources st" "closeCalls st" h OPEN] by (simp add: session_inv_def)
  ultimately show ?thesis using i True by (simp add: session_inv_def split: option.splits)
qed

lemma inv_ReconnectTimer: "session_inv st \<Longrightarrow> session_inv (react ReconnectTimer st)"
proof (cases "reconnectTimers st = 0")
  case True
  assume "session_inv st"
  with True show ?thesis by simp
next
  case False
  assume i: "session_inv st"
  obtain rc tm src cc pd ces where c: "core st = (rc, tm, src, cc, pd, ces)" and t: "reconnectTimers st = tm"
    by (rule core_cases)
  from i c have ic: "inv_core (rc, tm, src, cc, pd, ces)" by (simp add: session_inv_core)
  have r: "react ReconnectTimer st = connect (st\<lparr>reconnectTimers := tm - 1\<rparr>)"
    using False t by simp
  have "core (st\<lparr>reconnectTimers := tm - 1\<rparr>) = (rc, tm - 1, src, cc, pd, ces)"
    using c by (simp add: core_def)
  then have e: "core (react ReconnectTimer st)
      = (rc, tm - 1, src @ [CONNECTING], cc, pd @ [InitialPoll], Some (length src))"
    unfolding r by simp
  have v: "inv_core (rc, tm - 1, src @ [CONNECTING], cc, pd @ [InitialPoll], Some (length src))"
  proof -
    from ic have "list_all (\<lambda>k. k < length src \<and> src ! k = CLOSED) cc" by simp
    from closed_calls_append [OF this]
    have cl: "list_all (\<lambda>k. k < length (src @ [CONNECTING]) \<and> (src @ [CONNECTING]) ! k = CLOSED) cc" .
    have "tm = 1" using ic False t by simp
    with ic cl show ?thesis by simp
  qed
  show ?thesis unfolding session_inv_core e by (rule v)
qed

lemma inv_Reply: "session_inv st \<Longrightarrow> session_inv (react (Reply i r) st)"
proof (cases "i < length (pending st)")
  case False
  assume "session_inv st"
  with False show ?thesis by simp
next
  case True
  assume i: "session_inv st"
  obtain rc tm src cc pd ces where c: "core st = (rc, tm, src, cc, pd, ces)" and p: "pending st = pd"
    and rcs: "retryCount st = rc"
    by (rule core_cases)
  from i c have ic: "inv_core (rc, tm, src, cc, pd, ces)" by (simp add: session_inv_core)
  let ?pd' = "take i pd @ drop (Suc i) pd"
  let ?st' = "st\<lparr>pending := take i (pending st) @ drop (Suc i) (pending st)\<rparr>"
  have c': "core ?st' = (rc, tm, src, cc, ?pd', ces)" using c p by (simp add: core_def)
  have rc': "retryCount ?st' = rc" using rcs by simp
  from True p have il: "i < length pd" by simp
  have i': "inv_core (rc, tm, src, cc, ?pd', ces)" by (rule inv_remove [OF ic il])
  from inv_c_closeCurrent [OF i'] have i'': "inv_core (c_closeCurrent (core ?st'))" using c' by simp
  have r: "react (Reply i r) st = resume (pd ! i) r ?st'" using True p by simp
  have "pd ! i \<in> set pd" using il by simp
  with ic have nc: "pd ! i \<noteq> CreateTaskPost" by auto
  have "inv_core (core (resume (pd ! i) r ?st'))"
  proof (cases "pd ! i")
    case CreateTaskPost
    with nc show ?thesis by simp
  next
    case HistoryList
    with i' c' show ?thesis by simp
  next
    case InitialPoll
    with core_poll_done [of "''Initial status fetch failed:''" r ?st'] i' i'' c' show ?thesis by auto
  next
    case FramePoll
    with core_poll_done [of "''Status update failed:''" r ?st'] i' i'' c' show ?thesis by auto
  next
    case FinalPoll
    with core_poll_done [of "''Final status update failed:''" r ?st'] i' i'' c' show ?thesis by auto
  next
    case (ErrorPoll h)
    then have "is_error_poll (pd ! i)" by simp
    from inv_retry [OF ic il this]
    have "rc < maxRetries \<Longrightarrow> inv_core (c_retry (core ?st'))" using c' by simp
    with core_error_poll_done [of r ?st'] i' i'' c' rc' ErrorPoll show ?thesis by auto
  next
    case (RespondPost a b d)
    with i' c' show ?thesis by (simp add: core_respond_done)
  qed
  with r show ?thesis by (simp add: session_inv_core)
qed

lemma inv_respondToHumanModal: "session_inv st \<Longrightarrow> session_inv (respondToHumanModal tid rid act st)"
proof -
  assume i: "session_inv st"
  obtain rc tm src cc pd ces where c: "core st = (rc, tm, src, cc, pd, ces)"
    by (rule core_cases)
  from i c have ic: "inv_core (rc, tm, src, cc, pd, ces)" by (simp add: session_inv_core)
  then have "\<And>resp. inv_core (c_poll (RespondPost rid resp act) (core st))" using c by simp
  with core_respondToHumanModal [of tid rid act st] ic c show ?thesis
    by (auto simp: session_inv_core)
qed

lemma session_inv_react: "session_inv st \<Longrightarrow> session_inv (react e st)"
proof (cases e)
  case (SourceOpened h)
  assume "session_inv st"
  with SourceOpened show ?thesis using inv_SourceOpened by simp
next
  case (Frame h n p)
  assume "session_inv st"
  with Frame show ?thesis using inv_Frame by simp
next
  case (TransportError h f)
  assume "session_inv st"
  with TransportError show ?thesis using inv_TransportError by simp
next
  case (HeartbeatTick h)
  assume "session_inv st"
  with HeartbeatTick show ?thesis by (simp add: session_inv_core)
next
  case ReconnectTimer
  assume "session_inv st"
  with ReconnectTimer show ?thesis using inv_ReconnectTimer by simp
next
  case (Reply i r)
  assume "session_inv st"
  with Reply show ?thesis using inv_Reply by simp
next
  case (UserTypes typed)
  assume "session_inv st"
  with UserTypes show ?thesis by (simp add: session_inv_core split: option.split)
next
  case ClickSend
  assume "session_inv st"
  with ClickSend show ?thesis using inv_respondToHumanModal by (simp split: option.split)
next
  case ClickSkip
  assume "session_inv st"
  with ClickSkip show ?thesis using inv_respondToHumanModal by (simp split: option.split)
next
  case ModalCloseTimer
  assume "session_inv st"
  with ModalCloseTimer show ?thesis by (simp add: session_inv_core)
qed

lemma session_inv_run: "session_inv st \<Longrightarrow> session_inv (run es st)"
  by (induction es arbitrary: st) (simp_all add: session_inv_react)

lemma session_inv_setupSSE: "no_session p \<Longrightarrow> session_inv (setupSSE tid p)"
  by (simp add: no_session_def setupSSE_def session_inv_core)
     (auto simp add: core_def maxRetries_def error_polls_def list_all_iff filter_empty_conv)

subsection \<open>Once a session is over, it stays over\<close>












subsection \<open>Counting retries and channels\<close>

lemma step_ok_ops:
  "core_step_ok c c"
  "core_step_ok c (c_poll k c)"
  "core_step_ok c (c_forget (c_close h c))"
  "core_step_ok c (c_forget (c_close h (c_poll k c)))"
  "core_step_ok c (c_poll k (c_close h c))"
  "core_step_ok c (c_closeCurrent c)"
  by (cases c; simp split: option.split)+

lemma step_ok_fields:
  "core_step_ok (core st) (core st') \<longleftrightarrow>
     ((retryCount st' = retryCount st \<and> reconnectTimers st' \<le> reconnectTimers st)
      \<or> (retryCount st < maxRetries \<and> retryCount st' = Suc (retryCount st)
          \<and> reconnectTimers st' = Suc (reconnectTimers st)))
     \<and> length (sources st) \<le> length (sources st')"
  by (simp add: core_def)

lemma step_ok_Reply:
  assumes "CreateTaskPost \<notin> set (pending st)"
  shows "core_step_ok (core st) (core (react (Reply i r) st))"
proof (cases "i < length (pending st)")
  case False
  then show ?thesis by (simp add: step_ok_ops)
next
  case True
  obtain rc tm src cc pd ces where c: "core st = (rc, tm, src, cc, pd, ces)" and p: "pending st = pd"
    and rcs: "retryCount st = rc"
    by (rule core_cases)
  let ?pd' = "take i pd @ drop (Suc i) pd"
  let ?st' = "st\<lparr>pending := take i (pending st) @ drop (Suc i) (pending st)\<rparr>"
  let ?c' = "(rc, tm, src, cc, ?pd', ces)"
  have c': "core ?st' = ?c'" using c p by (simp add: core_def)
  have rc': "retryCount ?st' = rc" using rcs by simp
  from True p have il: "i < length pd" by simp
  then have "pd ! i \<in> set pd" by simp
  with assms p have nc: "pd ! i \<noteq> CreateTaskPost" by auto
  have r: "react (Reply i r) st = resume (pd ! i) r ?st'" using True p by simp
  have o1: "core_step_ok (core st) ?c'" using c by simp
  have o2: "core_step_ok (core st) (c_closeCurrent ?c')" using c by (simp split: option.split)
  have o3: "rc < maxRetries \<Longrightarrow> core_step_ok (core st) (c_retry ?c')" using c by simp
  have "core_step_ok (core st) (core (resume (pd ! i) r ?st'))"
  proof (cases "pd ! i")
    case CreateTaskPost
    with nc show ?thesis by simp
  next
    case HistoryList
    with o1 c' show ?thesis by simp
  next
    case InitialPoll
    with core_poll_done [of "''Initial status fetch failed:''" r ?st'] o1 o2 c' show ?thesis by auto
  next
    case FramePoll
    with core_poll_done [of "''Status update failed:''" r ?st'] o1 o2 c' show ?thesis by auto
  next
    case FinalPoll
    with core_poll_done [of "''Final status update failed:''" r ?st'] o1 o2 c' show ?thesis by auto
  next
    case (ErrorPoll h)
    with core_error_poll_done [of r ?st'] o1 o2 o3 c' rc' show ?thesis by auto
  next
    case (RespondPost a b d)
    with o1 c' show ?thesis by (simp add: core_respond_done)
  qed
  with r show ?thesis by simp
qed

lemma step_ok_TransportError: "core_step_ok (core st) (core (react (TransportError h fatal) st))"
proof (cases "live st h")
  case False
  then show ?thesis by (simp add: step_ok_ops)
next
  case True
  obtain rc tm src cc pd ces where c: "core st = (rc, tm, src, cc, pd, ces)" and s: "sources st = src"
    by (rule core_cases)
  let ?r = "if fatal then CLOSED else CONNECTING"
  let ?st1 = "onErrorFrame h None (st\<lparr>sources := (sources st)[h := ?r]\<rparr>)"
  have "core ?st1 = core (st\<lparr>sources := (sources st)[h := ?r]\<rparr>)" by simp
  also have "\<dots> = (rc, tm, src[h := ?r], cc, pd, ces)" using c by (simp add: core_def)
  finally have c1: "core ?st1 = (rc, tm, src[h := ?r], cc, pd, ces)" .
  have "core_step_ok (core st) (core (onerror h ?st1))"
    using c c1 by (simp add: core_onerror)
  with True show ?thesis by simp
qed

lemma step_ok_react:
  assumes "CreateTaskPost \<notin> set (pending st)"
  shows "core_step_ok (core st) (core (react e st))"
proof (cases e)
  case (SourceOpened h)
  then show ?thesis by (simp add: step_ok_fields)
next
  case (Frame h n p)
  with core_dispatch [of h n p st] show ?thesis by (auto simp: step_ok_ops)
next
  case (TransportError h f)
  with step_ok_TransportError show ?thesis by simp
next
  case (HeartbeatTick h)
  then show ?thesis by (simp add: step_ok_ops)
next
  case ReconnectTimer
  then show ?thesis by (simp add: step_ok_fields connect_def fetchTask_def)
next
  case (Reply i r)
  with step_ok_Reply [OF assms] show ?thesis by simp
next
  case (UserTypes typed)
  then show ?thesis by (simp add: step_ok_ops split: option.split)
next
  case ClickSend
  have "\<And>tid rid act. core_step_ok (core st) (core (respondToHumanModal tid rid act st))"
    using core_respondToHumanModal by (metis step_ok_ops(1,2))
  with ClickSend show ?thesis by (simp add: step_ok_ops split: option.split)
next
  case ClickSkip
  have "\<And>tid rid act. core_step_ok (core st) (core (respondToHumanModal tid rid act st))"
    using core_respondToHumanModal by (metis step_ok_ops(1,2))
  with ClickSkip show ?thesis by (simp add: step_ok_ops split: option.split)
next
  case ModalCloseTimer
  then show ?thesis by (simp add: step_ok_ops)
qed

lemma sources_length_run:
  "session_inv st \<Longrightarrow> length (sources st) \<le> length (sources (run es st))"
proof (induction es arbitrary: st)
  case Nil
  then show ?case by simp
next
  case (Cons e es)
  from Cons.prems have "CreateTaskPost \<notin> set (pending st)" by (simp add: session_inv_def)
  from step_ok_react [OF this, of e] have "length (sources st) \<le> length (sources (react e st))"
    by (simp add: step_ok_fields)
  moreover from Cons.IH [OF session_inv_react [OF Cons.prems, of e]]
  have "length (sources (react e st)) \<le> length (sources (run (e # es) st))" by simp
  ultimately show ?case by simp
qed

subsection \<open>createTask with a blank prompt\<close>




lemma createTask_posts_prompt:
  "requests (createTask (demo\<lparr>promptInput := '' Summarize file X ''\<rparr>))
     = [GetTask ''t1'', PostTask ''Summarize file X'']
   \<and> closeCalls (createTask (demo\<lparr>promptInput := '' Summarize file X ''\<rparr>)) = [0]
   \<and> currentEventSource (createTask (demo\<lparr>promptInput := '' Summarize file X ''\<rparr>)) = None"
  by code_simp

subsection \<open>Frames without a listener\<close>

text \<open>
  Claim C5, as the code has it. A pushed frame whose event name has no registered listener
  (any name other than think, tool, act, log, run, message, ask_human, complete, error and
  cancelled) is dropped: nothing is thrown, no step is rendered and the page is unchanged.
  The fallback icon and the label Info are what a frame of a registered step type without an
  entry in the icon and label tables gets, and \<^verbatim>\<open>message\<close> is the only such type.
\<close>

theorem unlistened_frame_dropped:
  assumes "name \<notin> set eventTypes" and "name \<notin> {''ask_human'', ''complete'', ''error'', ''cancelled''}"
  shows "react (Frame h name payload) st = st
     \<and> (\<forall>t \<in> set eventTypes. (getEventLabel t = ''Info'') = (t = ''message'')
                              \<and> (getEventIcon t = ''U+2139 U+FE0F'') = (t = ''message''))"
proof -
  from assms have "dispatch h name payload st = st" by (simp add: dispatch_def)
  then have "react (Frame h name payload) st = st" by simp
  moreover have "\<forall>t \<in> set eventTypes. (getEventLabel t = ''Info'') = (t = ''message'')
                              \<and> (getEventIcon t = ''U+2139 U+FE0F'') = (t = ''message'')"
    by (simp add: eventTypes_def getEventLabel_def getEventIcon_def)
  ultimately show ?thesis by blast
qed

text \<open>The amended claim at a frame named \<^verbatim>\<open>progress\<close>.\<close>

theorem unlistened_frame_dropped_witness:
  "''progress'' \<notin> set eventTypes
   \<and> ''progress'' \<notin> {''ask_human'', ''complete'', ''error'', ''cancelled''}
   \<and> react (Frame 0 ''progress'' (Some (JObj [(''result'', JStr ''half way'')]))) demo = demo"
proof -
  have h1: "''progress'' \<notin> set eventTypes" by (simp add: eventTypes_def)
  have h2: "''progress'' \<notin> {''ask_human'', ''complete'', ''error'', ''cancelled''}" by simp
  from unlistened_frame_dropped [OF h1 h2, of 0 "Some (JObj [(''result'', JStr ''half way'')])" demo] h1 h2
  show ?thesis by blast
qed

text \<open>
  Claim C5 as stated fails: a well-formed frame named \<^verbatim>\<open>progress\<close> renders no step at all,
  where the same payload under the name \<^verbatim>\<open>message\<close> renders the informational step.
\<close>

theorem unknown_event_counterexample:
  "steps_of (container (react (Frame 0 ''progress'' (Some (JObj [(''result'', JStr ''half way'')]))) demo)) = []
   \<and> steps_of (container (react (Frame 0 ''message'' (Some (JObj [(''result'', JStr ''half way'')]))) demo))
       = [Item ''message'' ''U+2139 U+FE0F'' ''Info'' ''half way'' None]"
  by code_simp

subsection \<open>Malformed payloads\<close>








text \<open>
  Claim C8 at the payload \<^verbatim>\<open>{"result": null}\<close>, which carries no request id: no error step
  is rendered. \<^verbatim>\<open>typeof null\<close> is \<^verbatim>\<open>'object'\<close>, so reading \<^verbatim>\<open>data.result.question\<close> throws,
  and the listener's \<^verbatim>\<open>catch\<close> only logs.
\<close>

theorem ask_human_null_result_renders_nothing:
  "lacks_request_id (JObj [(''result'', Null)])
   \<and> steps_of (container (react (Frame 0 ''ask_human'' (Some (JObj [(''result'', Null)]))) demo)) = []
   \<and> console (react (Frame 0 ''ask_human'' (Some (JObj [(''result'', Null)]))) demo)
       = [''Error handling ask_human event:'']
   \<and> modal (react (Frame 0 ''ask_human'' (Some (JObj [(''result'', Null)]))) demo) = None"
  by code_simp

subsection \<open>Terminal frames\<close>




subsection \<open>The retry budget\<close>

text \<open>
  Claim C3, as the code has it. In every state of a session the retry count is at most
  \<open>maxRetries\<close> (3), and the channels opened so far plus the reconnects still pending are one
  more than the retries consumed. An event either leaves the retry count alone and schedules
  no reconnect, or finds it strictly below \<open>maxRetries\<close>, increments it and schedules
  exactly one reconnect. Opening a channel does not change the count. Hence a session opens
  at most \<open>1 + maxRetries\<close> channels: once the count equals \<open>maxRetries\<close> nothing schedules a
  reconnect any more, and once the reconnect scheduled by the last increment has run, no
  channel is opened again.
\<close>

theorem retry_budget:
  assumes "no_session p0" and "st = run es (setupSSE tid p0)"
  shows "retryCount st \<le> maxRetries
     \<and> length (sources st) + reconnectTimers st = 1 + retryCount st
     \<and> (\<forall>e. (retryCount (react e st) = retryCount st \<and> reconnectTimers (react e st) \<le> reconnectTimers st)
            \<or> (retryCount st < maxRetries \<and> retryCount (react e st) = retryCount st + 1
                \<and> reconnectTimers (react e st) = reconnectTimers st + 1))
     \<and> retryCount (connect st) = retryCount st
     \<and> (retryCount st = maxRetries \<and> reconnectTimers st = 0 \<longrightarrow>
          (\<forall>es'. length (sources (run es' st)) = length (sources st)))"
proof -
  from assms have i: "session_inv st" by (simp add: session_inv_setupSSE session_inv_run)
  then have a: "retryCount st \<le> maxRetries" and b: "length (sources st) + reconnectTimers st = 1 + retryCount st"
    and n: "CreateTaskPost \<notin> set (pending st)"
    by (simp_all add: session_inv_def)
  from step_ok_react [OF n]
  have c: "\<forall>e. (retryCount (react e st) = retryCount st \<and> reconnectTimers (react e st) \<le> reconnectTimers st)
            \<or> (retryCount st < maxRetries \<and> retryCount (react e st) = retryCount st + 1
                \<and> reconnectTimers (react e st) = reconnectTimers st + 1)"
    by (simp add: step_ok_fields)
  have d: "retryCount (connect st) = retryCount st" by (simp add: connect_def fetchTask_def)
  have e: "retryCount st = maxRetries \<and> reconnectTimers st = 0 \<longrightarrow>
          (\<forall>es'. length (sources (run es' st)) = length (sources st))"
  proof (intro impI allI)
    fix es'
    assume x: "retryCount st = maxRetries \<and> reconnectTimers st = 0"
    from session_inv_run [OF i, of es']
    have "length (sources (run es' st)) + reconnectTimers (run es' st) = Suc (retryCount (run es' st))"
      and "retryCount (run es' st) \<le> maxRetries"
      by (simp_all add: session_inv_def)
    then have "length (sources (run es' st)) \<le> Suc maxRetries" by simp
    moreover from x b have "length (sources st) = Suc maxRetries" by simp
    moreover note sources_length_run [OF i, of es']
    ultimately show "length (sources (run es' st)) = length (sources st)" by simp
  qed
  from a b c d e show ?thesis by blast
qed

text \<open>The amended claim after one transport error, its poll and the reconnect.\<close>

theorem retry_budget_witness:
  "no_session (loaded_page (Some []) (Some False))
   \<and> retryCount (run [TransportError 0 False, Reply 1 (HttpReply True (Some (JObj [(''status'', JStr ''running'')]))), ReconnectTimer] demo) \<le> maxRetries
   \<and> length (sources (run [TransportError 0 False, Reply 1 (HttpReply True (Some (JObj [(''status'', JStr ''running'')]))), ReconnectTimer] demo))
        + reconnectTimers (run [TransportError 0 False, Reply 1 (HttpReply True (Some (JObj [(''status'', JStr ''running'')]))), ReconnectTimer] demo)
      = 1 + retryCount (run [TransportError 0 False, Reply 1 (HttpReply True (Some (JObj [(''status'', JStr ''running'')]))), ReconnectTimer] demo)"
proof -
  have h: "no_session (loaded_page (Some []) (Some False))" by code_simp
  note r = retry_budget [OF h refl, where es = "[TransportError 0 False, Reply 1 (HttpReply True (Some (JObj [(''status'', JStr ''running'')]))), ReconnectTimer]"
      and tid = "''t1''"]
  from h r [THEN conjunct1] r [THEN conjunct2, THEN conjunct1] show ?thesis by (intro conjI)
qed

text \<open>
  Claim C3 as stated fails in its last part: the third transport error raises the retry
  count to \<open>maxRetries\<close> and schedules a reconnect, so a channel is opened (the fourth of
  the session) when the count already equals \<open>maxRetries\<close>.
\<close>

theorem reopen_at_max_retries_counterexample:
  "retryCount (run [TransportError 0 False, Reply 1 (HttpReply True (Some (JObj [(''status'', JStr ''running'')]))), ReconnectTimer,
                    TransportError 1 False, Reply 2 (HttpReply True (Some (JObj [(''status'', JStr ''running'')]))), ReconnectTimer,
                    TransportError 2 False, Reply 3 (HttpReply True (Some (JObj [(''status'', JStr ''running'')])))] demo) = maxRetries
   \<and> length (sources (run [TransportError 0 False, Reply 1 (HttpReply True (Some (JObj [(''status'', JStr ''running'')]))), ReconnectTimer,
                    TransportError 1 False, Reply 2 (HttpReply True (Some (JObj [(''status'', JStr ''running'')]))), ReconnectTimer,
                    TransportError 2 False, Reply 3 (HttpReply True (Some (JObj [(''status'', JStr ''running'')])))] demo)) = 3
   \<and> length (sources (run [TransportError 0 False, Reply 1 (HttpReply True (Some (JObj [(''status'', JStr ''running'')]))), ReconnectTimer,
                    TransportError 1 False, Reply 2 (HttpReply True (Some (JObj [(''status'', JStr ''running'')]))), ReconnectTimer,
                    TransportError 2 False, Reply 3 (HttpReply True (Some (JObj [(''status'', JStr ''running'')]))), ReconnectTimer] demo)) = 4"
  by code_simp

subsection \<open>The poll after a transport error\<close>

lemma terminal_poll_no_retry:
  assumes "js_get task ''status'' = Some status"
    and "status = JStr ''completed'' \<or> status = JStr ''failed''"
  shows "retryCount (error_poll_done (HttpReply ok (Some task)) st) = retryCount st
     \<and> reconnectTimers (error_poll_done (HttpReply ok (Some task)) st) = reconnectTimers st
     \<and> length (sources (error_poll_done (HttpReply ok (Some task)) st)) = length (sources st)"
proof -
  from assms have n: "updateTaskStatus task st \<noteq> None"
    by (auto simp: updateTaskStatus_def split: option.splits)
  then obtain st1 where u: "updateTaskStatus task st = Some st1" by auto
  with core_updateTaskStatus [where task = task and st = st]
  have "core st1 = core st \<or> core st1 = c_closeCurrent (core st)" by simp
  then have f: "retryCount st1 = retryCount st \<and> reconnectTimers st1 = reconnectTimers st
      \<and> length (sources st1) = length (sources st)"
    by (auto simp: core_def split: option.splits)
  from assms u have "error_poll_done (HttpReply ok (Some task)) st
      = appendNode (CompleteBox None) st1
    \<or> error_poll_done (HttpReply ok (Some task)) st
      = appendNode (ErrorBox (js_to_string
          (js_or (case js_get task ''error'' of Some e \<Rightarrow> e | None \<Rightarrow> Undefined) (JStr ''Task failed'')))) st1"
    by (auto simp: error_poll_done_def error_poll_then_def)
  with f show ?thesis by (auto simp: appendNode_def)
qed

text \<open>
  Claim C1 at a poll that returns the status \<^verbatim>\<open>cancelled\<close> after a transport error: the
  \<^verbatim>\<open>onerror\<close> handler tests for \<^verbatim>\<open>completed\<close> and \<^verbatim>\<open>failed\<close> only, so the retry count goes
  from 0 to 1, a reconnect is scheduled, and the timer opens a second channel.
\<close>

theorem cancelled_poll_consumes_retry:
  "retryCount (run [TransportError 0 False, Reply 1 (HttpReply True (Some (JObj [(''status'', JStr ''cancelled'')])))] demo) = 1
   \<and> reconnectTimers (run [TransportError 0 False, Reply 1 (HttpReply True (Some (JObj [(''status'', JStr ''cancelled'')])))] demo) = 1
   \<and> container (run [TransportError 0 False, Reply 1 (HttpReply True (Some (JObj [(''status'', JStr ''cancelled'')])))] demo) = [WarningBox 1]
   \<and> length (sources (run [TransportError 0 False, Reply 1 (HttpReply True (Some (JObj [(''status'', JStr ''cancelled'')]))), ReconnectTimer] demo)) = 2"
  by code_simp

subsection \<open>Polls after frames\<close>

lemma poll_on_open:
  "requests (connect st) = requests st @ [GetTask (taskId st)]
   \<and> pending (connect st) = pending st @ [InitialPoll]"
  by (simp add: connect_def fetchTask_def)

lemma poll_after_step_frame:
  assumes "js_get data ''result'' = Some content" and "createStepElement t content = Some el"
  shows "requests (handleEvent h t (Some data) st) = requests st @ [GetTask (taskId st)]
     \<and> pending (handleEvent h t (Some data) st) = pending st @ [FramePoll]"
  using assms by (simp add: handleEvent_def Let_def fetchTask_def clearHeartbeat_def)

lemma poll_after_complete:
  assumes "js_get data ''result'' = Some result"
  shows "requests (onComplete h (Some data) st) = requests st @ [GetTask (taskId st)]
     \<and> pending (onComplete h (Some data) st) = pending st @ [FinalPoll]"
  using assms
  by (simp add: onComplete_def Let_def fetchTask_def clearHeartbeat_def appendNode_def
      hideCancelButton_def closeSource_def)

lemma poll_after_cancelled:
  "requests (onCancelled h (Some data) st) = requests st @ [GetTask (taskId st)]
   \<and> pending (onCancelled h (Some data) st) = pending st @ [FinalPoll]"
  by (simp add: onCancelled_def Let_def fetchTask_def clearHeartbeat_def appendNode_def
      hideCancelButton_def closeSource_def)

lemma no_poll_after_error_frame:
  "requests (onErrorFrame h payload st) = requests st \<and> pending (onErrorFrame h payload st) = pending st"
  by (simp add: onErrorFrame_def Let_def clearHeartbeat_def appendNode_def hideCancelButton_def
      closeSource_def logError_def split: option.split)

lemma no_poll_after_ask_human:
  "requests (onAskHuman h payload st) = requests st"
proof (cases payload)
  case None
  then show ?thesis by (simp add: onAskHuman_def logError_def clearHeartbeat_def)
next
  case (Some data)
  let ?st1 = "(clearHeartbeat h st)\<lparr>container := ensureStepContainer (remove1 Loading (container (clearHeartbeat h st))),
                                  containerActive := True\<rparr>"
  have r1: "requests ?st1 = requests st" by (simp add: clearHeartbeat_def)
  have "case createHumanRequestElement data ?st1 of None \<Rightarrow> True
        | Some (el, st2) \<Rightarrow> requests st2 = requests ?st1"
    by (simp add: createHumanRequestElement_def showAskHumanModal_def logError_def split: option.split)
  with Some r1 show ?thesis
    by (cases "createHumanRequestElement data ?st1") (auto simp: onAskHuman_def Let_def logError_def)
qed

text \<open>
  Claim C4 at an \<^verbatim>\<open>error\<close> frame: its listener renders the message and closes the channel
  without fetching the task, so the only request made is the initial poll; the
  \<^verbatim>\<open>complete\<close> listener on the same page makes a second one.
\<close>

theorem error_frame_issues_no_poll:
  "requests (react (Frame 0 ''error'' (Some (JObj [(''message'', JStr ''boom'')]))) demo) = [GetTask ''t1'']
   \<and> pending (react (Frame 0 ''error'' (Some (JObj [(''message'', JStr ''boom'')]))) demo) = [InitialPoll]
   \<and> sources (react (Frame 0 ''error'' (Some (JObj [(''message'', JStr ''boom'')]))) demo) = [CLOSED]
   \<and> requests (react (Frame 0 ''complete'' (Some (JObj [(''result'', JStr ''Done'')]))) demo)
       = [GetTask ''t1'', GetTask ''t1'']"
  by code_simp

subsection \<open>Answering a question\<close>

lemma update_first_waiting_length: "length (update_first_waiting txt ss) = length ss"
  by (induction ss) simp_all

lemma update_first_waiting_at:
  "\<not> list_ex waiting_step a \<Longrightarrow> waiting_step s \<Longrightarrow>
     update_first_waiting txt (a @ s # b) = a @ set_em txt s # b"
  by (induction a) simp_all

lemma update_nodes_length: "length (steps_of (update_nodes t ns)) = length (steps_of ns)"
  by (induction t ns rule: update_nodes.induct) (simp_all add: update_first_waiting_length)

lemma send_response_disables:
  "modal st = Some m \<Longrightarrow>
     modal (send_response tid rid resp act st) = Some (m\<lparr>m_buttonsDisabled := True, m_footer := ''Sending response...''\<rparr>)"
  by (simp add: send_response_def showModalLoading_def Let_def)

lemma failure_keeps_buttons:
  assumes "modal st = Some m" and "r = NetworkError \<or> r = HttpReply False body"
  shows "map_option m_buttonsDisabled (modal (respond_done rid resp act r st)) = Some (m_buttonsDisabled m)
     \<and> requests (respond_done rid resp act r st) = requests st
     \<and> pending (respond_done rid resp act r st) = pending st"
  using assms
  by (auto simp: respond_done_def respond_failed_def showModalError_def logError_def split: option.split)

text \<open>
  Claim C6 with two questions pending (\<^verbatim>\<open>r1\<close>, then \<^verbatim>\<open>r2\<close>, whose modal replaces the
  first): skipping \<^verbatim>\<open>r2\<close> posts one request for \<^verbatim>\<open>r2\<close> with the sentinel text, and on the
  2xx reply \<^verbatim>\<open>updateLogElement\<close>, which never looks at its \<^verbatim>\<open>requestId\<close>, rewrites the step
  of \<^verbatim>\<open>r1\<close>; the step of \<^verbatim>\<open>r2\<close> goes on waiting.
\<close>

theorem skip_updates_first_waiting_step:
  "requests (run [(Frame 0 ''ask_human'' (Some (JObj [(''result'', JObj [(''question'', JStr ''Q1''), (''request_id'', JStr ''r1'')])]))), (Frame 0 ''ask_human'' (Some (JObj [(''result'', JObj [(''question'', JStr ''Q2''), (''request_id'', JStr ''r2'')])]))), ClickSkip, Reply 1 (HttpReply True None)] demo)
     = [GetTask ''t1'', PostRespond ''t1'' ''r2'' ''User chose to skip this question.'']
   \<and> steps_of (container (run [(Frame 0 ''ask_human'' (Some (JObj [(''result'', JObj [(''question'', JStr ''Q1''), (''request_id'', JStr ''r1'')])]))), (Frame 0 ''ask_human'' (Some (JObj [(''result'', JObj [(''question'', JStr ''Q2''), (''request_id'', JStr ''r2'')])]))), ClickSkip, Reply 1 (HttpReply True None)] demo))
     = [HumanItem ''Q1'' ''User response: (skipped)'', HumanItem ''Q2'' ''Waiting for user response...'']"
  by code_simp

lemma skip_single_question:
  "requests (run [(Frame 0 ''ask_human'' (Some (JObj [(''result'', JObj [(''question'', JStr ''Proceed?''), (''request_id'', JStr ''r1'')])]))), ClickSkip, Reply 1 (HttpReply True None)] demo)
     = [GetTask ''t1'', PostRespond ''t1'' ''r1'' ''User chose to skip this question.'']
   \<and> steps_of (container (run [(Frame 0 ''ask_human'' (Some (JObj [(''result'', JObj [(''question'', JStr ''Proceed?''), (''request_id'', JStr ''r1'')])]))), ClickSkip, Reply 1 (HttpReply True None)] demo))
     = [HumanItem ''Proceed?'' ''User response: (skipped)'']"
  by code_simp

text \<open>
  Claim C7 at a submission that the server rejects, and at one that fails in the network:
  the modal stays and shows the error, nothing is sent again, but the two buttons, disabled
  by \<^verbatim>\<open>showModalLoading\<close> before the request, are still disabled, so that a click on either
  does nothing.
\<close>

theorem failed_submission_leaves_buttons_disabled:
  "modal (run [(Frame 0 ''ask_human'' (Some (JObj [(''result'', JObj [(''question'', JStr ''Proceed?''), (''request_id'', JStr ''r1'')])]))), UserTypes ''yes'', ClickSend,
               Reply 1 (HttpReply False (Some (JObj [(''detail'', JStr ''busy'')])))] demo)
     = Some \<lparr>m_taskId = ''t1'', m_requestId = ''r1'', m_question = ''Proceed?'', m_textarea = ''yes'',
             m_buttonsDisabled = True, m_footer = ''Error: busy''\<rparr>
   \<and> modal (run [(Frame 0 ''ask_human'' (Some (JObj [(''result'', JObj [(''question'', JStr ''Proceed?''), (''request_id'', JStr ''r1'')])]))), UserTypes ''yes'', ClickSend, Reply 1 NetworkError] demo)
     = Some \<lparr>m_taskId = ''t1'', m_requestId = ''r1'', m_question = ''Proceed?'', m_textarea = ''yes'',
             m_buttonsDisabled = True, m_footer = ''Network error. Please try again.''\<rparr>
   \<and> requests (run [(Frame 0 ''ask_human'' (Some (JObj [(''result'', JObj [(''question'', JStr ''Proceed?''), (''request_id'', JStr ''r1'')])]))), UserTypes ''yes'', ClickSend,
               Reply 1 (HttpReply False (Some (JObj [(''detail'', JStr ''busy'')]))), ClickSend, ClickSkip] demo)
     = [GetTask ''t1'', PostRespond ''t1'' ''r1'' ''yes'']"
  by code_simp

end
